theory Spec2Isabelle
  imports Complex_Main
begin

section \<open>Python values shared by the two notebooks\<close>

text \<open>
  The repository is two notebooks: \<^verbatim>\<open>500hPa_Vorticity_Advection.ipynb\<close> (names prefixed
  \<open>va_\<close> below) and the xarray notebook (names prefixed \<open>xr_\<close>). Both are straight-line
  scripts over a module namespace, so each is modelled as a sequence of statements that
  transform a record of the notebook's variables. An exception aborts the run: a statement
  returns \<open>Inl e\<close> and nothing after it is executed.
\<close>

datatype error = IndexError | KeyError | LibraryError string

definition and_then :: "error + 'a \<Rightarrow> ('a \<Rightarrow> error + 'b) \<Rightarrow> error + 'b" where
  "and_then r k = (case r of Inl e \<Rightarrow> Inl e | Inr x \<Rightarrow> k x)"

text \<open>
  A pint \<^verbatim>\<open>Quantity\<close>: the magnitudes (\<^verbatim>\<open>.m\<close>) and the unit expression they are tagged
  with. The type \<open>'g\<close> of a gridded array is left open: the notebooks never look inside a
  2-D field, they only pass it on.
\<close>

record 'g quantity =
  magnitude :: 'g
  units :: string

section \<open>Request building\<close>

text \<open>
  \<^verbatim>\<open>dt = datetime(2016, 4, 16, 18)\<close>. An f-string field \<^verbatim>\<open>{dt:%Y%m}\<close> is
  \<^verbatim>\<open>dt.strftime('%Y%m')\<close>; the directives the notebooks use are \<^verbatim>\<open>%Y\<close> (the year in
  decimal), \<^verbatim>\<open>%m\<close>, \<^verbatim>\<open>%d\<close> and \<^verbatim>\<open>%H\<close> (two digits each, zero padded). A
  \<^verbatim>\<open>datetime\<close> has its year in 1..9999, month in 1..12, day in 1..31 and hour in 0..23.
  Python hands \<^verbatim>\<open>%Y\<close> to the C library, and glibc prints a year below 1000 without
  leading zeros: year 999 gives \<^verbatim>\<open>999\<close>, not \<^verbatim>\<open>0999\<close>.
\<close>

record datetime =
  year :: nat
  month :: nat
  day :: nat
  hour :: nat

definition digit :: "nat \<Rightarrow> char" where
  "digit n = ''0123456789'' ! (n mod 10)"

definition pad2 :: "nat \<Rightarrow> string" where
  "pad2 n = [digit (n div 10), digit n]"

definition year_digits :: "nat \<Rightarrow> string" where
  "year_digits n =
     (if n < 10 then [digit n]
      else if n < 100 then [digit (n div 10), digit n]
      else if n < 1000 then [digit (n div 100), digit (n div 10), digit n]
      else [digit (n div 1000), digit (n div 100), digit (n div 10), digit n])"

definition directive :: "datetime \<Rightarrow> char \<Rightarrow> string" where
  "directive dt c =
     (if c = CHR ''Y'' then year_digits (year dt)
      else if c = CHR ''m'' then pad2 (month dt)
      else if c = CHR ''d'' then pad2 (day dt)
      else if c = CHR ''H'' then pad2 (hour dt)
      else [CHR ''%'', c])"

fun strftime :: "datetime \<Rightarrow> string \<Rightarrow> string" where
  "strftime dt [] = []"
| "strftime dt [c] = [c]"
| "strftime dt (c # d # rest) =
     (if c = CHR ''%'' then directive dt d @ strftime dt rest
      else c # strftime dt (d # rest))"

definition notebook_dt :: datetime where
  "notebook_dt = \<lparr>year = 2016, month = 4, day = 16, hour = 18\<rparr>"

subsection \<open>Vorticity-advection notebook: catalog and subset query\<close>

definition va_base_url :: string where
  "va_base_url = ''https://www.ncei.noaa.gov/thredds/catalog/model-namanl-old/''"

text \<open>The argument of \<^verbatim>\<open>TDSCatalog(...)\<close>.\<close>

definition va_catalog_url :: "datetime \<Rightarrow> string" where
  "va_catalog_url dt =
     va_base_url @ strftime dt ''%Y%m'' @ ''/'' @ strftime dt ''%Y%m%d'' @ ''/catalog.xml''"

text \<open>The key of \<^verbatim>\<open>cat.datasets[...]\<close>.\<close>

definition va_dataset_name :: "datetime \<Rightarrow> string" where
  "va_dataset_name dt =
     ''namanl_218_'' @ strftime dt ''%Y%m%d'' @ ''_'' @ strftime dt ''%H'' @ ''00_000.grb''"

subsection \<open>Xarray notebook: OPeNDAP address\<close>

definition xr_base_url :: string where
  "xr_base_url = ''https://www.ncei.noaa.gov/thredds/dodsC/model-namanl-old/''"

text \<open>The argument of \<^verbatim>\<open>xr.open_dataset(...)\<close>: two adjacent f-strings.\<close>

definition xr_dataset_url :: "datetime \<Rightarrow> string" where
  "xr_dataset_url dt =
     (xr_base_url @ strftime dt ''%Y%m'' @ ''/'' @ strftime dt ''%Y%m%d'' @ ''/'')
     @ (''namanl_218_'' @ strftime dt ''%Y%m%d'' @ ''_'' @ strftime dt ''%H'' @ ''00_000.grb'')"

subsection \<open>The archived product, as the specification names its parts\<close>

text \<open>
  The parts the two strategies are said to share: the archive root host, the model
  identifier, the date path \<^verbatim>\<open>%Y%m/%Y%m%d\<close> and the dataset name
  \<^verbatim>\<open>namanl_218_%Y%m%d_%H00_000.grb\<close>. The service segment (\<^verbatim>\<open>catalog\<close> or \<^verbatim>\<open>dodsC\<close>)
  is what tells the strategies apart.
\<close>

definition archive_root :: string where
  "archive_root = ''https://www.ncei.noaa.gov/thredds/''"

definition model_id :: string where
  "model_id = ''model-namanl-old''"

definition date_path :: "datetime \<Rightarrow> string" where
  "date_path dt = strftime dt ''%Y%m'' @ ''/'' @ strftime dt ''%Y%m%d''"

definition product_name :: "datetime \<Rightarrow> string" where
  "product_name dt =
     ''namanl_218_'' @ strftime dt ''%Y%m%d'' @ ''_'' @ strftime dt ''%H'' @ ''00_000.grb''"

definition product_dir :: "string \<Rightarrow> datetime \<Rightarrow> string" where
  "product_dir service dt =
     archive_root @ service @ ''/'' @ model_id @ ''/'' @ date_path dt @ ''/''"

section \<open>The external libraries\<close>

text \<open>
  The notebooks compute nothing themselves: every number comes out of a call into numpy,
  scipy, pint, MetPy, netCDF4, xarray or the standard library. Those libraries are not code
  of the repository, so their functions are parameters of the model, and every call may
  raise. What the model fixes is what the notebooks fix: which function is called, with
  which arguments, in which order, and where each result is stored.

  \<open>'g\<close> is a 2-D array of magnitudes and \<open>'t\<close> a date-time object. The fields, with the
  call they stand for:
  \<^item> \<open>num2date\<close>: \<^verbatim>\<open>netCDF4.num2date(values, units=...)\<close>;
  \<^item> \<open>true_divide\<close>: Python's \<^verbatim>\<open>/\<close> on an integer and a float, that is, the integer
    rounded to a double and the rounded double quotient;
  \<^item> \<open>utcfromtimestamp\<close>: \<^verbatim>\<open>datetime.utcfromtimestamp(seconds)\<close>;
  \<^item> \<open>datetime64\<close>: the conversion of a date-time key to the nanosecond label that
    \<^verbatim>\<open>.sel\<close> looks up;
  \<^item> \<open>format_time\<close>: the text an f-string field \<^verbatim>\<open>{vtime}\<close> interpolates;
  \<^item> \<open>gaussian_filter\<close>: \<^verbatim>\<open>scipy.ndimage.gaussian_filter(input, sigma, order)\<close>, which
    reads the input through \<^verbatim>\<open>numpy.asarray\<close>, that is, as bare magnitudes;
  \<^item> \<open>lat_lon_grid_deltas\<close>, \<open>coriolis_parameter\<close>, \<open>vorticity\<close>, \<open>advection\<close>: the
    functions of \<^verbatim>\<open>metpy.calc\<close>, the last two with their \<^verbatim>\<open>dim_order\<close> keyword;
  \<^item> \<open>deg2rad\<close>: \<^verbatim>\<open>numpy.deg2rad\<close>;
  \<^item> \<open>to_units\<close>: pint's \<^verbatim>\<open>Quantity.to\<close>; \<open>quantity_add\<close>: pint's \<^verbatim>\<open>+\<close>;
  \<^item> \<open>times_scalar\<close>: an array times a Python number, element by element.
\<close>

record ('g, 't) lib =
  num2date :: "real list \<Rightarrow> string \<Rightarrow> error + 't"
  true_divide :: "int \<Rightarrow> real \<Rightarrow> real"
  utcfromtimestamp :: "real \<Rightarrow> error + 't"
  datetime64 :: "'t \<Rightarrow> int"
  format_time :: "'t \<Rightarrow> string"
  gaussian_filter :: "'g \<Rightarrow> real \<Rightarrow> nat \<Rightarrow> error + 'g"
  lat_lon_grid_deltas :: "'g \<Rightarrow> 'g \<Rightarrow> error + ('g quantity \<times> 'g quantity)"
  deg2rad :: "'g \<Rightarrow> 'g"
  coriolis_parameter :: "'g \<Rightarrow> error + 'g quantity"
  to_units :: "'g quantity \<Rightarrow> string \<Rightarrow> error + 'g quantity"
  vorticity ::
    "'g quantity \<Rightarrow> 'g quantity \<Rightarrow> 'g quantity \<Rightarrow> 'g quantity \<Rightarrow> string \<Rightarrow> error + 'g quantity"
  quantity_add :: "'g quantity \<Rightarrow> 'g quantity \<Rightarrow> error + 'g quantity"
  advection ::
    "'g quantity \<Rightarrow> 'g quantity list \<Rightarrow> 'g quantity \<times> 'g quantity \<Rightarrow> string \<Rightarrow> error + 'g quantity"
  times_scalar :: "'g \<Rightarrow> real \<Rightarrow> 'g"

section \<open>Array access\<close>

text \<open>
  \<^verbatim>\<open>np.where(a == v)[0]\<close> for a one-dimensional array \<open>a\<close>: the positions whose entry
  equals \<open>v\<close>, in increasing order. The same search is the exact-label lookup of a
  coordinate index.
\<close>

definition positions :: "'a list \<Rightarrow> 'a \<Rightarrow> nat list" where
  "positions a v = filter (\<lambda>i. a ! i = v) [0..<length a]"

text \<open>
  \<^verbatim>\<open>var[i, j, :, :]\<close> on a variable with dimensions (time, level, y, x): the 2-D slice
  stored at time position \<open>i\<close> and level position \<open>j\<close>. A position outside its axis
  raises \<^verbatim>\<open>IndexError\<close>.
\<close>

definition index2 :: "'g list list \<Rightarrow> nat \<Rightarrow> nat \<Rightarrow> error + 'g" where
  "index2 var i j =
     (if i < length var then
        (if j < length (var ! i) then Inr (var ! i ! j) else Inl IndexError)
      else Inl IndexError)"

text \<open>
  The data model's invariant: every variable is as long along each axis as the coordinate
  array of that axis.
\<close>

definition consistent :: "'a list \<Rightarrow> 'b list \<Rightarrow> 'g list list list \<Rightarrow> bool" where
  "consistent time_axis level_axis vars =
     list_all (\<lambda>var. length var = length time_axis \<and>
                      list_all (\<lambda>row. length row = length level_axis) var) vars"

text \<open>What a drawing call was given to draw.\<close>

datatype 'a layer = Contour 'a | Contourf 'a | Barbs 'a 'a

section \<open>The vorticity-advection notebook\<close>

subsection \<open>The dataset and the namespace\<close>

text \<open>
  \<^verbatim>\<open>ds = ncss.get_data(query)\<close>: the query asked for the three isobaric variables and for
  longitude and latitude, so the dataset holds them, the vertical coordinate
  \<^verbatim>\<open>isobaric\<close> and the variable of the first dimension of the height (the time
  coordinate, with its \<^verbatim>\<open>units\<close> attribute). A 4-D variable is indexed
  \<open>[time][level]\<close> and holds a 2-D slice there. The height variable has a \<^verbatim>\<open>units\<close>
  attribute too (\<open>ds_hght_units\<close>); the notebook never reads it.
\<close>

record 'g nc_dataset =
  ds_lon :: 'g
  ds_lat :: 'g
  ds_times :: "real list"
  ds_times_units :: string
  ds_isobaric :: "real list"
  ds_hght :: "'g list list"
  ds_hght_units :: string
  ds_uwnd :: "'g list list"
  ds_vwnd :: "'g list list"

definition nc_consistent :: "'g nc_dataset \<Rightarrow> bool" where
  "nc_consistent ds =
     consistent (ds_times ds) (ds_isobaric ds) [ds_hght ds, ds_uwnd ds, ds_vwnd ds]"

text \<open>The variables of the notebook, and what has been drawn on the figure.\<close>

record ('g, 't) va_state =
  va_lon :: 'g
  va_lat :: 'g
  va_vtime :: 't
  va_lev_500 :: nat
  va_hght_500 :: "'g quantity"
  va_uwnd_500 :: "'g quantity"
  va_vwnd_500 :: "'g quantity"
  va_dx :: "'g quantity"
  va_dy :: "'g quantity"
  va_f :: "'g quantity"
  va_avor :: "'g quantity"
  va_vort_adv :: "'g quantity"
  va_title_left :: string
  va_title_right :: string
  va_layers :: "'g layer list"

subsection \<open>Data acquisition cell, after the fetch\<close>

text \<open>
  \<^verbatim>\<open>lon = ds.variables['lon'][:]\<close> and \<^verbatim>\<open>lat = ds.variables['lat'][:]\<close>.
\<close>

definition va_read_lon_lat :: "'g nc_dataset \<Rightarrow> ('g, 't) va_state \<Rightarrow> ('g, 't) va_state" where
  "va_read_lon_lat ds s = s\<lparr>va_lon := ds_lon ds, va_lat := ds_lat ds\<rparr>"

text \<open>
  \<^verbatim>\<open>vtime = num2date(times[:].squeeze(), units=times.units)\<close>; \<^verbatim>\<open>squeeze\<close> only drops
  axes of length one, the values stay as they are.
\<close>

definition va_read_vtime ::
  "('g, 't) lib \<Rightarrow> 'g nc_dataset \<Rightarrow> ('g, 't) va_state \<Rightarrow> error + ('g, 't) va_state" where
  "va_read_vtime L ds s =
     and_then (num2date L (ds_times ds) (ds_times_units ds))
       (\<lambda>t. Inr (s\<lparr>va_vtime := t\<rparr>))"

text \<open>
  \<^verbatim>\<open>lev_500 = np.where(ds.variables['isobaric'][:] == 500)[0][0]\<close>: the first position
  found; indexing an empty result raises \<^verbatim>\<open>IndexError\<close>.
\<close>

definition va_find_lev_500 :: "'g nc_dataset \<Rightarrow> ('g, 't) va_state \<Rightarrow> error + ('g, 't) va_state" where
  "va_find_lev_500 ds s =
     (case positions (ds_isobaric ds) 500 of
        [] \<Rightarrow> Inl IndexError
      | i # _ \<Rightarrow> Inr (s\<lparr>va_lev_500 := i\<rparr>))"

text \<open>
  \<^verbatim>\<open>hght_500 = ds.variables['Geopotential_height_isobaric'][0, lev_500, :, :]\<close>, then
  \<^verbatim>\<open>hght_500 = ndimage.gaussian_filter(hght_500, sigma=3, order=0) * units.meter\<close>.
  Multiplying an array by a unit tags it; the magnitudes are the filter's output.
\<close>

definition va_select_hght ::
  "('g, 't) lib \<Rightarrow> 'g nc_dataset \<Rightarrow> ('g, 't) va_state \<Rightarrow> error + ('g, 't) va_state" where
  "va_select_hght L ds s =
     and_then (index2 (ds_hght ds) 0 (va_lev_500 s))
       (\<lambda>raw. and_then (gaussian_filter L raw 3 0)
         (\<lambda>smooth. Inr (s\<lparr>va_hght_500 := \<lparr>magnitude = smooth, units = ''meter''\<rparr>\<rparr>)))"

text \<open>
  \<^verbatim>\<open>uwnd_500 = units('m/s') * ds.variables['u-component_of_wind_isobaric'][0, lev_500, :, :]\<close>
  and the same for \<^verbatim>\<open>vwnd_500\<close>.
\<close>

definition va_select_wind :: "'g nc_dataset \<Rightarrow> ('g, 't) va_state \<Rightarrow> error + ('g, 't) va_state" where
  "va_select_wind ds s =
     and_then (index2 (ds_uwnd ds) 0 (va_lev_500 s))
       (\<lambda>u. and_then (index2 (ds_vwnd ds) 0 (va_lev_500 s))
         (\<lambda>v. Inr (s\<lparr>va_uwnd_500 := \<lparr>magnitude = u, units = ''m/s''\<rparr>,
                      va_vwnd_500 := \<lparr>magnitude = v, units = ''m/s''\<rparr>\<rparr>)))"

definition va_acquire ::
  "('g, 't) lib \<Rightarrow> 'g nc_dataset \<Rightarrow> ('g, 't) va_state \<Rightarrow> error + ('g, 't) va_state" where
  "va_acquire L ds s =
     and_then (va_read_vtime L ds (va_read_lon_lat ds s))
       (\<lambda>s. and_then (va_find_lev_500 ds s)
         (\<lambda>s. and_then (va_select_hght L ds s) (va_select_wind ds)))"

subsection \<open>Data calculation cell\<close>

text \<open>\<^verbatim>\<open>dx, dy = mpcalc.lat_lon_grid_deltas(lon, lat)\<close>\<close>

definition va_grid_deltas :: "('g, 't) lib \<Rightarrow> ('g, 't) va_state \<Rightarrow> error + ('g, 't) va_state" where
  "va_grid_deltas L s =
     and_then (lat_lon_grid_deltas L (va_lon s) (va_lat s))
       (\<lambda>(gx, gy). Inr (s\<lparr>va_dx := gx, va_dy := gy\<rparr>))"

text \<open>\<^verbatim>\<open>f = mpcalc.coriolis_parameter(np.deg2rad(lat)).to(units('1/sec'))\<close>\<close>

definition va_coriolis :: "('g, 't) lib \<Rightarrow> ('g, 't) va_state \<Rightarrow> error + ('g, 't) va_state" where
  "va_coriolis L s =
     and_then (coriolis_parameter L (deg2rad L (va_lat s)))
       (\<lambda>f0. and_then (to_units L f0 ''1/sec'')
         (\<lambda>cor. Inr (s\<lparr>va_f := cor\<rparr>)))"

text \<open>\<^verbatim>\<open>avor = mpcalc.vorticity(uwnd_500, vwnd_500, dx, dy, dim_order='yx') + f\<close>\<close>

definition va_absolute_vorticity ::
  "('g, 't) lib \<Rightarrow> ('g, 't) va_state \<Rightarrow> error + ('g, 't) va_state" where
  "va_absolute_vorticity L s =
     and_then (vorticity L (va_uwnd_500 s) (va_vwnd_500 s) (va_dx s) (va_dy s) ''yx'')
       (\<lambda>rel. and_then (quantity_add L rel (va_f s))
         (\<lambda>a. Inr (s\<lparr>va_avor := a\<rparr>)))"

text \<open>
  \<^verbatim>\<open>avor = ndimage.gaussian_filter(avor, sigma=3, order=0) * units('1/s')\<close>: the filter
  is handed a quantity and reads its magnitudes; the product with \<^verbatim>\<open>units('1/s')\<close>, whose
  magnitude is 1, tags the output.
\<close>

definition va_smooth_avor :: "('g, 't) lib \<Rightarrow> ('g, 't) va_state \<Rightarrow> error + ('g, 't) va_state" where
  "va_smooth_avor L s =
     and_then (gaussian_filter L (magnitude (va_avor s)) 3 0)
       (\<lambda>smooth. Inr (s\<lparr>va_avor := \<lparr>magnitude = smooth, units = ''1/s''\<rparr>\<rparr>))"

text \<open>
  \<^verbatim>\<open>vort_adv = mpcalc.advection(avor, [uwnd_500, vwnd_500], (dx, dy), dim_order='yx') * 1e9\<close>:
  a quantity times a number keeps its unit.
\<close>

definition va_advect :: "('g, 't) lib \<Rightarrow> ('g, 't) va_state \<Rightarrow> error + ('g, 't) va_state" where
  "va_advect L s =
     and_then (advection L (va_avor s) [va_uwnd_500 s, va_vwnd_500 s] (va_dx s, va_dy s) ''yx'')
       (\<lambda>adv. Inr (s\<lparr>va_vort_adv :=
          \<lparr>magnitude = times_scalar L (magnitude adv) (10 ^ 9), units = units adv\<rparr>\<rparr>))"

text \<open>The cell up to the first assignment of \<^verbatim>\<open>avor\<close>, and the whole cell.\<close>

definition va_calc_avor :: "('g, 't) lib \<Rightarrow> ('g, 't) va_state \<Rightarrow> error + ('g, 't) va_state" where
  "va_calc_avor L s =
     and_then (va_grid_deltas L s)
       (\<lambda>s. and_then (va_coriolis L s) (va_absolute_vorticity L))"

definition va_calc :: "('g, 't) lib \<Rightarrow> ('g, 't) va_state \<Rightarrow> error + ('g, 't) va_state" where
  "va_calc L s =
     and_then (va_calc_avor L s)
       (\<lambda>s. and_then (va_smooth_avor L s) (va_advect L))"

subsection \<open>Map creation cell\<close>

text \<open>
  Of the drawing calls the model keeps the two titles and, in order, the magnitudes each
  layer was given to draw: \<^verbatim>\<open>hght_500.m\<close>, \<^verbatim>\<open>avor*10**5\<close>, \<^verbatim>\<open>vort_adv.m\<close> and
  the pair \<^verbatim>\<open>uwnd_500.m, vwnd_500.m\<close>.
\<close>

definition va_plot :: "('g, 't) lib \<Rightarrow> ('g, 't) va_state \<Rightarrow> ('g, 't) va_state" where
  "va_plot L s = s\<lparr>
     va_title_left :=
       ''500-hPa Heights (m), AVOR$*10^5$ ($s^{-1}$), AVOR Adv$*10^8$ ($s^{-2}$)'',
     va_title_right := ''VALID: '' @ format_time L (va_vtime s),
     va_layers :=
       [Contour (magnitude (va_hght_500 s)),
        Contour (times_scalar L (magnitude (va_avor s)) (10 ^ 5)),
        Contourf (magnitude (va_vort_adv s)),
        Barbs (magnitude (va_uwnd_500 s)) (magnitude (va_vwnd_500 s))]\<rparr>"

definition va_notebook ::
  "('g, 't) lib \<Rightarrow> 'g nc_dataset \<Rightarrow> ('g, 't) va_state \<Rightarrow> error + ('g, 't) va_state" where
  "va_notebook L ds s =
     and_then (va_acquire L ds s)
       (\<lambda>s. and_then (va_calc L s) (\<lambda>s. Inr (va_plot L s)))"

section \<open>The xarray notebook\<close>

subsection \<open>The dataset and the namespace\<close>

text \<open>
  \<^verbatim>\<open>data = xr.open_dataset(..., decode_times=True)\<close>. The time coordinates are decoded:
  \<^verbatim>\<open>data.time\<close> and the coordinate \<^verbatim>\<open>time1\<close> hold \<^verbatim>\<open>datetime64[ns]\<close> values, which are
  integers (nanoseconds since the epoch). The three variables have the dimensions
  (\<^verbatim>\<open>time1\<close>, \<^verbatim>\<open>isobaric\<close>, y, x) and are indexed \<open>[time1][isobaric]\<close>.
\<close>

record 'g xr_dataset =
  data_time :: "int list"
  data_time1 :: "int list"
  data_isobaric :: "real list"
  data_hght :: "'g list list"
  data_uwnd :: "'g list list"
  data_vwnd :: "'g list list"

definition xr_consistent :: "'g xr_dataset \<Rightarrow> bool" where
  "xr_consistent data =
     consistent (data_time1 data) (data_isobaric data) [data_hght data, data_uwnd data, data_vwnd data]"

text \<open>
  What \<^verbatim>\<open>.sel\<close> returns: a 2-D field when each label matched one position (both
  dimensions are dropped), and otherwise an array that keeps every dimension whose label
  matched several positions, given here by the matching positions.
\<close>

datatype 'g selected = Slice 'g | Stacked "nat list" "nat list"

record ('g, 't) xr_state =
  xr_vtimes :: "'t list"
  xr_hght_500 :: "'g selected"
  xr_uwnd_500 :: "'g selected"
  xr_vwnd_500 :: "'g selected"
  xr_title_left :: string
  xr_title_right :: string
  xr_layers :: "'g layer list"

subsection \<open>Valid times\<close>

text \<open>
  \<^verbatim>\<open>vtimes = []\<close>, then for each \<open>t\<close> in \<^verbatim>\<open>range(data.time.size)\<close>:
  \<^verbatim>\<open>vtimes.append(datetime.utcfromtimestamp(data.time[t].data.astype('O') / 1e9))\<close>.
  \<^verbatim>\<open>astype('O')\<close> gives the integer of nanoseconds; \<^verbatim>\<open>/ 1e9\<close> is Python's float
  division, a library operation like the others.
\<close>

fun xr_vtimes_loop :: "('g, 't) lib \<Rightarrow> int list \<Rightarrow> 't list \<Rightarrow> error + 't list" where
  "xr_vtimes_loop L [] vtimes = Inr vtimes"
| "xr_vtimes_loop L (ns # rest) vtimes =
     (case utcfromtimestamp L (true_divide L ns (10 ^ 9)) of
        Inl e \<Rightarrow> Inl e
      | Inr d \<Rightarrow> xr_vtimes_loop L rest (vtimes @ [d]))"

definition xr_read_vtimes ::
  "('g, 't) lib \<Rightarrow> 'g xr_dataset \<Rightarrow> ('g, 't) xr_state \<Rightarrow> error + ('g, 't) xr_state" where
  "xr_read_vtimes L data s =
     and_then (xr_vtimes_loop L (data_time data) [])
       (\<lambda>vtimes. Inr (s\<lparr>xr_vtimes := vtimes\<rparr>))"

subsection \<open>Selection by label\<close>

text \<open>
  \<^verbatim>\<open>var.sel(time1=t, isobaric=p)\<close> with the default exact matching: each label is looked
  up in its coordinate; a label that is not there raises \<^verbatim>\<open>KeyError\<close>.
\<close>

definition sel ::
  "int list \<Rightarrow> real list \<Rightarrow> 'g list list \<Rightarrow> int \<Rightarrow> real \<Rightarrow> error + 'g selected" where
  "sel time1 isobaric var t p =
     (let ts = positions time1 t; ps = positions isobaric p in
      if ts = [] \<or> ps = [] then Inl KeyError
      else if length ts = 1 \<and> length ps = 1 then
        (case index2 var (hd ts) (hd ps) of Inl e \<Rightarrow> Inl e | Inr g \<Rightarrow> Inr (Slice g))
      else Inr (Stacked ts ps))"

text \<open>
  \<^verbatim>\<open>hght_500 = data['Geopotential_height_isobaric'].sel(time1=vtimes[0], isobaric=500)\<close>
  and the same for the two wind components. \<^verbatim>\<open>vtimes[0]\<close> raises \<^verbatim>\<open>IndexError\<close> on an
  empty list.
\<close>

definition xr_select ::
  "('g, 't) lib \<Rightarrow> 'g xr_dataset \<Rightarrow> ('g, 't) xr_state \<Rightarrow> error + ('g, 't) xr_state" where
  "xr_select L data s =
     (case xr_vtimes s of
        [] \<Rightarrow> Inl IndexError
      | t0 # _ \<Rightarrow>
          and_then (sel (data_time1 data) (data_isobaric data) (data_hght data) (datetime64 L t0) 500)
            (\<lambda>h. and_then
              (sel (data_time1 data) (data_isobaric data) (data_uwnd data) (datetime64 L t0) 500)
              (\<lambda>u. and_then
                (sel (data_time1 data) (data_isobaric data) (data_vwnd data) (datetime64 L t0) 500)
                (\<lambda>v. Inr (s\<lparr>xr_hght_500 := h, xr_uwnd_500 := u, xr_vwnd_500 := v\<rparr>)))))"

subsection \<open>The map\<close>

text \<open>
  \<^verbatim>\<open>ax.contour(x, y, ndimage.gaussian_filter(hght_500, sigma=5), ...)\<close>,
  \<^verbatim>\<open>ax.barbs(x, y, uwnd_500.data, vwnd_500.data, ...)\<close> and the two titles, the right one
  \<^verbatim>\<open>f'VALID: {vtimes[0]}'\<close>. The drawing calls take 2-D input; anything else is refused
  by the plotting library.
\<close>

definition xr_plot :: "('g, 't) lib \<Rightarrow> ('g, 't) xr_state \<Rightarrow> error + ('g, 't) xr_state" where
  "xr_plot L s =
     (case (xr_hght_500 s, xr_uwnd_500 s, xr_vwnd_500 s) of
        (Slice h, Slice u, Slice v) \<Rightarrow>
          and_then (gaussian_filter L h 5 0)
            (\<lambda>smooth.
              (case xr_vtimes s of
                 [] \<Rightarrow> Inl IndexError
               | t0 # _ \<Rightarrow>
                   Inr (s\<lparr>xr_layers := [Contour smooth, Barbs u v],
                           xr_title_left := ''500-hPa Geopotential Heights (m)'',
                           xr_title_right := ''VALID: '' @ format_time L t0\<rparr>)))
      | _ \<Rightarrow> Inl (LibraryError ''TypeError''))"

definition xr_notebook ::
  "('g, 't) lib \<Rightarrow> 'g xr_dataset \<Rightarrow> ('g, 't) xr_state \<Rightarrow> error + ('g, 't) xr_state" where
  "xr_notebook L data s =
     and_then (xr_read_vtimes L data s)
       (\<lambda>s. and_then (xr_select L data s) (xr_plot L))"

section \<open>A library that records its calls\<close>

text \<open>
  To run the notebooks on concrete input the library parameters need values. The stand-in
  below computes no physics: every call returns the expression that names the call and its
  arguments, so the result of a run shows which data reached which computation. Its
  date-times are seconds since the epoch, kept to the microsecond as a \<^verbatim>\<open>datetime\<close>
  keeps them; its division is exact, which on the whole seconds of the sample input is
  what the float division gives.
\<close>

datatype trace =
    Given string
  | Smoothed trace real nat
  | Delta_x trace trace
  | Delta_y trace trace
  | Radians trace
  | Coriolis trace
  | Converted trace string string
  | Vorticity trace trace trace trace string
  | Added trace trace
  | Advection trace "trace list" trace trace string
  | Scaled trace real

datatype timestamp = Decoded "real list" string | From_seconds real

definition recording_lib :: "(trace, timestamp) lib" where
  "recording_lib = \<lparr>
     num2date = (\<lambda>values u. Inr (Decoded values u)),
     true_divide = (\<lambda>n d. real_of_int n / d),
     utcfromtimestamp = (\<lambda>seconds.
       Inr (From_seconds (real_of_int (round (seconds * 10 ^ 6)) / 10 ^ 6))),
     datetime64 = (\<lambda>t. case t of From_seconds r \<Rightarrow> \<lfloor>r * 10 ^ 9\<rfloor> | Decoded _ _ \<Rightarrow> 0),
     format_time = (\<lambda>t. case t of From_seconds _ \<Rightarrow> ''utcfromtimestamp(...)''
                                 | Decoded _ _ \<Rightarrow> ''num2date(...)''),
     gaussian_filter = (\<lambda>g sigma order. Inr (Smoothed g sigma order)),
     lat_lon_grid_deltas = (\<lambda>lon lat.
       Inr (\<lparr>magnitude = Delta_x lon lat, units = ''meter''\<rparr>,
            \<lparr>magnitude = Delta_y lon lat, units = ''meter''\<rparr>)),
     deg2rad = Radians,
     coriolis_parameter = (\<lambda>lat. Inr \<lparr>magnitude = Coriolis lat, units = ''1/second''\<rparr>),
     to_units = (\<lambda>q u. Inr \<lparr>magnitude = Converted (magnitude q) (units q) u, units = u\<rparr>),
     vorticity = (\<lambda>u v gx gy order.
       Inr \<lparr>magnitude = Vorticity (magnitude u) (magnitude v) (magnitude gx) (magnitude gy) order,
            units = ''1/second''\<rparr>),
     quantity_add = (\<lambda>a b. Inr \<lparr>magnitude = Added (magnitude a) (magnitude b), units = units a\<rparr>),
     advection = (\<lambda>a wind (gx, gy) order.
       Inr \<lparr>magnitude = Advection (magnitude a) (map magnitude wind) (magnitude gx) (magnitude gy) order,
            units = ''1/second ** 2''\<rparr>),
     times_scalar = Scaled\<rparr>"

text \<open>Does an expression read the output of the Gaussian filter?\<close>

fun reads_smoothed :: "trace \<Rightarrow> bool" where
  "reads_smoothed (Given _) = False"
| "reads_smoothed (Smoothed _ _ _) = True"
| "reads_smoothed (Delta_x a b) = (reads_smoothed a \<or> reads_smoothed b)"
| "reads_smoothed (Delta_y a b) = (reads_smoothed a \<or> reads_smoothed b)"
| "reads_smoothed (Radians a) = reads_smoothed a"
| "reads_smoothed (Coriolis a) = reads_smoothed a"
| "reads_smoothed (Converted a _ _) = reads_smoothed a"
| "reads_smoothed (Vorticity a b c d _) =
     (reads_smoothed a \<or> reads_smoothed b \<or> reads_smoothed c \<or> reads_smoothed d)"
| "reads_smoothed (Added a b) = (reads_smoothed a \<or> reads_smoothed b)"
| "reads_smoothed (Advection a ws c d _) =
     (reads_smoothed a \<or> list_ex reads_smoothed ws \<or> reads_smoothed c \<or> reads_smoothed d)"
| "reads_smoothed (Scaled a _) = reads_smoothed a"

subsection \<open>Sample input\<close>

text \<open>
  A dataset with one time and four levels, and one whose levels skip 500 between 550 and
  450; the namespace before the first cell runs.
\<close>

definition sample_ds :: "trace nc_dataset" where
  "sample_ds = \<lparr>
     ds_lon = Given ''lon'', ds_lat = Given ''lat'',
     ds_times = [405786], ds_times_units = ''Hour since 1970-01-01T00:00:00Z'',
     ds_isobaric = [850, 700, 500, 300],
     ds_hght = [[Given ''hght 850'', Given ''hght 700'', Given ''hght 500'', Given ''hght 300'']],
     ds_hght_units = ''gpm'',
     ds_uwnd = [[Given ''u 850'', Given ''u 700'', Given ''u 500'', Given ''u 300'']],
     ds_vwnd = [[Given ''v 850'', Given ''v 700'', Given ''v 500'', Given ''v 300'']]\<rparr>"

definition sample_ds_without_500 :: "trace nc_dataset" where
  "sample_ds_without_500 = sample_ds\<lparr>ds_isobaric := [850, 550, 450, 300]\<rparr>"

definition unset :: "trace quantity" where
  "unset = \<lparr>magnitude = Given ''unset'', units = []\<rparr>"

definition va_blank :: "(trace, timestamp) va_state" where
  "va_blank = \<lparr>
     va_lon = Given ''unset'', va_lat = Given ''unset'', va_vtime = Decoded [] [],
     va_lev_500 = 0, va_hght_500 = unset, va_uwnd_500 = unset, va_vwnd_500 = unset,
     va_dx = unset, va_dy = unset, va_f = unset, va_avor = unset, va_vort_adv = unset,
     va_title_left = [], va_title_right = [], va_layers = []\<rparr>"

text \<open>The namespace after the acquisition cell, and after the calculation cell.\<close>

definition va_sample :: "(trace, timestamp) va_state" where
  "va_sample = va_blank\<lparr>
     va_lon := Given ''lon'', va_lat := Given ''lat'',
     va_vtime := Decoded [405786] ''Hour since 1970-01-01T00:00:00Z'',
     va_lev_500 := 2,
     va_hght_500 := \<lparr>magnitude = Smoothed (Given ''hght 500'') 3 0, units = ''meter''\<rparr>,
     va_uwnd_500 := \<lparr>magnitude = Given ''u 500'', units = ''m/s''\<rparr>,
     va_vwnd_500 := \<lparr>magnitude = Given ''v 500'', units = ''m/s''\<rparr>\<rparr>"

definition sample_avor :: trace where
  "sample_avor =
     Added (Vorticity (Given ''u 500'') (Given ''v 500'')
              (Delta_x (Given ''lon'') (Given ''lat'')) (Delta_y (Given ''lon'') (Given ''lat''))
              ''yx'')
           (Converted (Coriolis (Radians (Given ''lat''))) ''1/second'' ''1/sec'')"

definition sample_vort_adv :: trace where
  "sample_vort_adv =
     Scaled (Advection (Smoothed sample_avor 3 0) [Given ''u 500'', Given ''v 500'']
               (Delta_x (Given ''lon'') (Given ''lat'')) (Delta_y (Given ''lon'') (Given ''lat''))
               ''yx'')
            (10 ^ 9)"

definition va_sample_done :: "(trace, timestamp) va_state" where
  "va_sample_done = va_sample\<lparr>
     va_dx := \<lparr>magnitude = Delta_x (Given ''lon'') (Given ''lat''), units = ''meter''\<rparr>,
     va_dy := \<lparr>magnitude = Delta_y (Given ''lon'') (Given ''lat''), units = ''meter''\<rparr>,
     va_f := \<lparr>magnitude = Converted (Coriolis (Radians (Given ''lat''))) ''1/second'' ''1/sec'',
              units = ''1/sec''\<rparr>,
     va_avor := \<lparr>magnitude = Smoothed sample_avor 3 0, units = ''1/s''\<rparr>,
     va_vort_adv := \<lparr>magnitude = sample_vort_adv, units = ''1/second ** 2''\<rparr>\<rparr>"

text \<open>
  A dataset that holds two times, 12Z and then the requested 18Z, and the namespace after
  the acquisition cell has run on it.
\<close>

definition sample_ds_two_times :: "trace nc_dataset" where
  "sample_ds_two_times = sample_ds\<lparr>
     ds_times := [405780, 405786],
     ds_hght :=
       [[Given ''hght 12Z 850'', Given ''hght 12Z 700'', Given ''hght 12Z 500'', Given ''hght 12Z 300''],
        [Given ''hght 18Z 850'', Given ''hght 18Z 700'', Given ''hght 18Z 500'', Given ''hght 18Z 300'']],
     ds_uwnd :=
       [[Given ''u 12Z 850'', Given ''u 12Z 700'', Given ''u 12Z 500'', Given ''u 12Z 300''],
        [Given ''u 18Z 850'', Given ''u 18Z 700'', Given ''u 18Z 500'', Given ''u 18Z 300'']],
     ds_vwnd :=
       [[Given ''v 12Z 850'', Given ''v 12Z 700'', Given ''v 12Z 500'', Given ''v 12Z 300''],
        [Given ''v 18Z 850'', Given ''v 18Z 700'', Given ''v 18Z 500'', Given ''v 18Z 300'']]\<rparr>"

definition va_sample_two_times :: "(trace, timestamp) va_state" where
  "va_sample_two_times = va_blank\<lparr>
     va_lon := Given ''lon'', va_lat := Given ''lat'',
     va_vtime := Decoded [405780, 405786] ''Hour since 1970-01-01T00:00:00Z'',
     va_lev_500 := 2,
     va_hght_500 := \<lparr>magnitude = Smoothed (Given ''hght 12Z 500'') 3 0, units = ''meter''\<rparr>,
     va_uwnd_500 := \<lparr>magnitude = Given ''u 12Z 500'', units = ''m/s''\<rparr>,
     va_vwnd_500 := \<lparr>magnitude = Given ''v 12Z 500'', units = ''m/s''\<rparr>\<rparr>"

definition va_sample_drawn :: "(trace, timestamp) va_state" where
  "va_sample_drawn = va_sample_done\<lparr>
     va_title_left :=
       ''500-hPa Heights (m), AVOR$*10^5$ ($s^{-1}$), AVOR Adv$*10^8$ ($s^{-2}$)'',
     va_title_right := ''VALID: num2date(...)'',
     va_layers :=
       [Contour (Smoothed (Given ''hght 500'') 3 0),
        Contour (Scaled (Smoothed sample_avor 3 0) (10 ^ 5)),
        Contourf sample_vort_adv,
        Barbs (Given ''u 500'') (Given ''v 500'')]\<rparr>"

definition sample_data :: "trace xr_dataset" where
  "sample_data = \<lparr>
     data_time = [1460829600000000000],
     data_time1 = [1460808000000000000, 1460829600000000000],
     data_isobaric = [850, 700, 500, 300],
     data_hght =
       [[Given ''hght 12Z 850'', Given ''hght 12Z 700'', Given ''hght 12Z 500'', Given ''hght 12Z 300''],
        [Given ''hght 18Z 850'', Given ''hght 18Z 700'', Given ''hght 18Z 500'', Given ''hght 18Z 300'']],
     data_uwnd =
       [[Given ''u 12Z 850'', Given ''u 12Z 700'', Given ''u 12Z 500'', Given ''u 12Z 300''],
        [Given ''u 18Z 850'', Given ''u 18Z 700'', Given ''u 18Z 500'', Given ''u 18Z 300'']],
     data_vwnd =
       [[Given ''v 12Z 850'', Given ''v 12Z 700'', Given ''v 12Z 500'', Given ''v 12Z 300''],
        [Given ''v 18Z 850'', Given ''v 18Z 700'', Given ''v 18Z 500'', Given ''v 18Z 300'']]\<rparr>"

definition sample_data_without_500 :: "trace xr_dataset" where
  "sample_data_without_500 = sample_data\<lparr>data_isobaric := [850, 550, 450, 300]\<rparr>"

text \<open>A dataset whose vertical coordinate holds the level 500 twice.\<close>

definition sample_data_repeated_500 :: "trace xr_dataset" where
  "sample_data_repeated_500 = sample_data\<lparr>data_isobaric := [850, 500, 500, 300]\<rparr>"

definition xr_blank :: "(trace, timestamp) xr_state" where
  "xr_blank = \<lparr>
     xr_vtimes = [], xr_hght_500 = Slice (Given ''unset''), xr_uwnd_500 = Slice (Given ''unset''),
     xr_vwnd_500 = Slice (Given ''unset''), xr_title_left = [], xr_title_right = [],
     xr_layers = []\<rparr>"

text \<open>The namespace after the valid times are read, and after the selection.\<close>

definition xr_sample :: "(trace, timestamp) xr_state" where
  "xr_sample = xr_blank\<lparr>xr_vtimes := [From_seconds 1460829600]\<rparr>"

definition xr_sample_selected :: "(trace, timestamp) xr_state" where
  "xr_sample_selected = xr_sample\<lparr>
     xr_hght_500 := Slice (Given ''hght 18Z 500''),
     xr_uwnd_500 := Slice (Given ''u 18Z 500''),
     xr_vwnd_500 := Slice (Given ''v 18Z 500'')\<rparr>"

definition xr_sample_drawn :: "(trace, timestamp) xr_state" where
  "xr_sample_drawn = xr_sample_selected\<lparr>
     xr_layers :=
       [Contour (Smoothed (Given ''hght 18Z 500'') 5 0),
        Barbs (Given ''u 18Z 500'') (Given ''v 18Z 500'')],
     xr_title_left := ''500-hPa Geopotential Heights (m)'',
     xr_title_right := ''VALID: utcfromtimestamp(...)''\<rparr>"

section \<open>Request building: the two strategies address one product\<close>

lemma strftime_Ym: "strftime dt ''%Y%m'' = year_digits (year dt) @ pad2 (month dt)"
  by (simp add: directive_def)

lemma strftime_Ymd:
  "strftime dt ''%Y%m%d'' = year_digits (year dt) @ pad2 (month dt) @ pad2 (day dt)"
  by (simp add: directive_def)

lemma strftime_H: "strftime dt ''%H'' = pad2 (hour dt)"
  by (simp add: directive_def)

lemma notebook_catalog_url:
  "va_catalog_url notebook_dt =
     ''https://www.ncei.noaa.gov/thredds/catalog/model-namanl-old/201604/20160416/catalog.xml''"
  by (simp add: va_catalog_url_def va_base_url_def notebook_dt_def directive_def pad2_def
      year_digits_def digit_def)

lemma notebook_dataset_url:
  "xr_dataset_url notebook_dt =
     ''https://www.ncei.noaa.gov/thredds/dodsC/model-namanl-old/201604/20160416/namanl_218_20160416_1800_000.grb''"
  by (simp add: xr_dataset_url_def xr_base_url_def notebook_dt_def directive_def pad2_def
      year_digits_def digit_def)

text \<open>
  C5. For every timestamp \<open>dt\<close> the catalog strategy and the OPeNDAP strategy address the
  same archived product: the catalog document and the OPeNDAP dataset lie in the directory
  built from the same archive root, the same model identifier and the same
  \<^verbatim>\<open>%Y%m/%Y%m%d\<close> date path of \<open>dt\<close> (only the service segment differs), and the dataset
  requested from the catalog and the file opened over OPeNDAP carry the same name
  \<^verbatim>\<open>namanl_218_%Y%m%d_%H00_000.grb\<close>.
\<close>

theorem same_archived_product:
  "va_catalog_url dt = product_dir ''catalog'' dt @ ''catalog.xml'' \<and>
   va_dataset_name dt = product_name dt \<and>
   xr_dataset_url dt = product_dir ''dodsC'' dt @ va_dataset_name dt"
  by (simp add: va_catalog_url_def va_dataset_name_def xr_dataset_url_def va_base_url_def
      xr_base_url_def product_dir_def product_name_def date_path_def archive_root_def
      model_id_def)

theorem same_archived_product_witness:
  "va_catalog_url notebook_dt =
     ''https://www.ncei.noaa.gov/thredds/catalog/model-namanl-old/201604/20160416/catalog.xml'' \<and>
   va_dataset_name notebook_dt = ''namanl_218_20160416_1800_000.grb'' \<and>
   xr_dataset_url notebook_dt =
     ''https://www.ncei.noaa.gov/thredds/dodsC/model-namanl-old/201604/20160416/''
       @ va_dataset_name notebook_dt"
  using same_archived_product [of notebook_dt]
  by (simp add: product_dir_def product_name_def date_path_def archive_root_def model_id_def
      notebook_dt_def directive_def pad2_def year_digits_def digit_def)

section \<open>Sequencing and array lemmas\<close>

lemma and_then_Inl [simp]: "and_then (Inl e) k = Inl e"
  by (simp add: and_then_def)

lemma and_then_Inr [simp]: "and_then (Inr x) k = k x"
  by (simp add: and_then_def)

lemma and_then_Inr_iff: "and_then r k = Inr y \<longleftrightarrow> (\<exists>x. r = Inr x \<and> k x = Inr y)"
  by (cases r) simp_all

lemma and_then_never: "(\<And>x. r = Inr x \<Longrightarrow> k x \<noteq> Inr y) \<Longrightarrow> and_then r k \<noteq> Inr y"
  by (cases r) simp_all

lemma positions_member: "k \<in> set (positions a v) \<longleftrightarrow> k < length a \<and> a ! k = v"
  by (auto simp: positions_def)

lemma positions_sorted: "sorted (positions a v)"
  by (simp add: positions_def sorted_wrt_filter)

lemma positions_absent: "v \<notin> set a \<Longrightarrow> positions a v = []"
  by (auto simp: positions_def filter_empty_conv)

lemma positions_present: "v \<in> set a \<Longrightarrow> positions a v \<noteq> []"
  by (auto simp: positions_def filter_empty_conv in_set_conv_nth)

text \<open>The head of the search result is the first position that holds the value.\<close>

lemma positions_first:
  assumes "positions a v = k # rest"
  shows "k < length a \<and> a ! k = v \<and> (\<forall>j<k. a ! j \<noteq> v)"
proof -
  have "k \<in> set (positions a v)"
    using assms by simp
  then have here: "k < length a \<and> a ! k = v"
    by (simp add: positions_member)
  have "\<forall>j<k. a ! j \<noteq> v"
  proof (intro allI impI notI)
    fix j
    assume "j < k" and "a ! j = v"
    then have "j \<in> set (positions a v)"
      using here by (simp add: positions_member)
    moreover have "sorted (k # rest)"
      using positions_sorted [of a v] assms by simp
    ultimately show False
      using assms \<open>j < k\<close> by auto
  qed
  with here show ?thesis by simp
qed

lemma index2_in_range:
  "i < length var \<Longrightarrow> j < length (var ! i) \<Longrightarrow> index2 var i j = Inr (var ! i ! j)"
  by (simp add: index2_def)

lemma index2_consistent:
  assumes "consistent time_axis level_axis vars" and "var \<in> set vars"
    and "i < length time_axis" and "k < length level_axis"
  shows "index2 var i k = Inr (var ! i ! k)"
proof -
  have len: "length var = length time_axis"
    and rows: "\<forall>row\<in>set var. length row = length level_axis"
    using assms(1,2) by (auto simp: consistent_def list_all_iff)
  have "var ! i \<in> set var"
    using len assms(3) by simp
  then have "length (var ! i) = length level_axis"
    using rows by blast
  then show ?thesis
    using len assms(3,4) by (simp add: index2_in_range)
qed

section \<open>The notebooks on the sample input\<close>

lemma sample_acquire: "va_acquire recording_lib sample_ds va_blank = Inr va_sample"
  by (simp add: va_acquire_def va_read_lon_lat_def va_read_vtime_def va_find_lev_500_def
      va_select_hght_def va_select_wind_def positions_def index2_def upt_conv_Cons
      sample_ds_def va_sample_def va_blank_def recording_lib_def)

lemma sample_calc: "va_calc recording_lib va_sample = Inr va_sample_done"
  by (simp add: va_calc_def va_calc_avor_def va_grid_deltas_def va_coriolis_def
      va_absolute_vorticity_def va_smooth_avor_def va_advect_def va_sample_def
      va_sample_done_def sample_avor_def sample_vort_adv_def va_blank_def recording_lib_def)

lemma sample_plot: "va_plot recording_lib va_sample_done = va_sample_drawn"
  by (simp add: va_plot_def va_sample_drawn_def va_sample_done_def va_sample_def
      va_blank_def recording_lib_def)

lemma sample_va_notebook: "va_notebook recording_lib sample_ds va_blank = Inr va_sample_drawn"
  by (simp add: va_notebook_def sample_acquire sample_calc sample_plot)

lemma sample_read_vtimes: "xr_read_vtimes recording_lib sample_data xr_blank = Inr xr_sample"
  by (simp add: xr_read_vtimes_def sample_data_def xr_sample_def recording_lib_def)

lemma sample_select: "xr_select recording_lib sample_data xr_sample = Inr xr_sample_selected"
  by (simp add: xr_select_def sel_def positions_def index2_def upt_conv_Cons Let_def
      sample_data_def xr_sample_def xr_sample_selected_def recording_lib_def)

lemma sample_xr_plot: "xr_plot recording_lib xr_sample_selected = Inr xr_sample_drawn"
  by (simp add: xr_plot_def xr_sample_drawn_def xr_sample_selected_def xr_sample_def
      xr_blank_def recording_lib_def)

lemma sample_xr_notebook: "xr_notebook recording_lib sample_data xr_blank = Inr xr_sample_drawn"
  by (simp add: xr_notebook_def sample_read_vtimes sample_select sample_xr_plot)

section \<open>Selection\<close>

lemma sel_absent_level: "p \<notin> set isobaric \<Longrightarrow> sel time1 isobaric var t p = Inl KeyError"
  by (simp add: sel_def positions_absent Let_def)

lemma va_find_lev_500_absent:
  "500 \<notin> set (ds_isobaric ds) \<Longrightarrow> va_find_lev_500 ds s = Inl IndexError"
  by (simp add: va_find_lev_500_def positions_absent)

lemma xr_select_absent:
  "500 \<notin> set (data_isobaric data) \<Longrightarrow>
   xr_select L data x = Inl (if xr_vtimes x = [] then IndexError else KeyError)"
  by (simp add: xr_select_def sel_absent_level split: list.splits)

text \<open>
  C2. When no entry of the vertical coordinate equals 500, selection fails.
  Positional path: the search statement raises \<^verbatim>\<open>IndexError\<close> in any namespace, so the
  acquisition cell ends in an error (that of \<^verbatim>\<open>num2date\<close> if the statement before the
  search already failed, \<^verbatim>\<open>IndexError\<close> otherwise) and binds no slice.
  Label path: the selection statement raises a lookup error (\<^verbatim>\<open>KeyError\<close> from
  \<^verbatim>\<open>.sel\<close>; \<^verbatim>\<open>IndexError\<close> from \<^verbatim>\<open>vtimes[0]\<close> if there is no valid time at all), and
  the notebook never completes. No neighbouring level is returned.
\<close>

theorem absent_level_fails:
  "(500 \<notin> set (ds_isobaric ds) \<longrightarrow>
      va_find_lev_500 ds s = Inl IndexError \<and>
      va_acquire L ds s =
        (case num2date L (ds_times ds) (ds_times_units ds) of
           Inl e \<Rightarrow> Inl e | Inr t \<Rightarrow> Inl IndexError)) \<and>
   (500 \<notin> set (data_isobaric data) \<longrightarrow>
      xr_select L data x = Inl (if xr_vtimes x = [] then IndexError else KeyError) \<and>
      (\<forall>x'. xr_notebook L data x \<noteq> Inr x'))"
proof (intro conjI impI allI)
  assume absent: "500 \<notin> set (ds_isobaric ds)"
  show "va_find_lev_500 ds s = Inl IndexError"
    using absent by (rule va_find_lev_500_absent)
  show "va_acquire L ds s =
        (case num2date L (ds_times ds) (ds_times_units ds) of
           Inl e \<Rightarrow> Inl e | Inr t \<Rightarrow> Inl IndexError)"
    by (simp add: va_acquire_def va_read_vtime_def va_find_lev_500_absent [OF absent]
        split: sum.splits)
next
  assume absent: "500 \<notin> set (data_isobaric data)"
  show "xr_select L data x = Inl (if xr_vtimes x = [] then IndexError else KeyError)"
    using absent by (rule xr_select_absent)
  fix x'
  show "xr_notebook L data x \<noteq> Inr x'"
    unfolding xr_notebook_def
    by (intro and_then_never) (simp add: xr_select_absent [OF absent])
qed

theorem absent_level_fails_witness:
  "500 \<notin> set (ds_isobaric sample_ds_without_500) \<and>
   500 \<notin> set (data_isobaric sample_data_without_500) \<and>
   va_find_lev_500 sample_ds_without_500 va_blank = Inl IndexError \<and>
   va_acquire recording_lib sample_ds_without_500 va_blank = Inl IndexError \<and>
   xr_select recording_lib sample_data_without_500 xr_sample = Inl KeyError"
  using absent_level_fails [of sample_ds_without_500 va_blank recording_lib
      sample_data_without_500 xr_sample]
  by (simp add: sample_ds_without_500_def sample_ds_def sample_data_without_500_def
      sample_data_def xr_sample_def recording_lib_def)

lemma positions_length: "length (positions a v) = count_list a v"
proof -
  have "filter (\<lambda>x. x = v) (map (nth a) [0..<length a]) =
        map (nth a) (filter (\<lambda>i. a ! i = v) [0..<length a])"
    by (simp add: filter_map comp_def)
  then have "length (filter (\<lambda>x. x = v) a) = length (positions a v)"
    by (simp add: map_nth positions_def)
  moreover have "filter ((=) v) a = filter (\<lambda>x. x = v) a"
    by (rule filter_cong) auto
  ultimately show ?thesis
    by (simp add: count_list_eq_length_filter)
qed

text \<open>A label that occurs once in its coordinate has one position.\<close>

lemma positions_once:
  assumes "count_list a v = 1"
  shows "\<exists>i. i < length a \<and> a ! i = v \<and> positions a v = [i]"
proof -
  have "length (positions a v) = 1"
    using assms by (simp add: positions_length)
  then obtain i where one: "positions a v = [i]"
    by (cases "positions a v") auto
  have "i \<in> set (positions a v)"
    by (simp add: one)
  then have "i < length a \<and> a ! i = v"
    by (simp only: positions_member)
  with one show ?thesis
    by blast
qed

lemma sel_once:
  assumes "consistent time1 isobaric vars" and "var \<in> set vars"
    and "positions time1 t = [i]" and "positions isobaric p = [k]"
    and "i < length time1" and "k < length isobaric"
  shows "sel time1 isobaric var t p = Inr (Slice (var ! i ! k))"
  using assms(3-6)
  by (simp add: sel_def index2_consistent [OF assms(1,2)])

text \<open>The acquisition cell, call by call.\<close>

lemma and_then_assoc: "and_then (and_then r f) g = and_then r (\<lambda>x. and_then (f x) g)"
  by (cases r) simp_all

lemma va_acquire_flat:
  "va_acquire L ds s =
     and_then (num2date L (ds_times ds) (ds_times_units ds))
       (\<lambda>t. case positions (ds_isobaric ds) 500 of
          [] \<Rightarrow> Inl IndexError
        | k # _ \<Rightarrow>
            and_then (index2 (ds_hght ds) 0 k)
              (\<lambda>raw. and_then (gaussian_filter L raw 3 0)
                (\<lambda>smooth. and_then (index2 (ds_uwnd ds) 0 k)
                  (\<lambda>u. and_then (index2 (ds_vwnd ds) 0 k)
                    (\<lambda>v. Inr (s\<lparr>va_lon := ds_lon ds, va_lat := ds_lat ds, va_vtime := t,
                          va_lev_500 := k,
                          va_hght_500 := \<lparr>magnitude = smooth, units = ''meter''\<rparr>,
                          va_uwnd_500 := \<lparr>magnitude = u, units = ''m/s''\<rparr>,
                          va_vwnd_500 := \<lparr>magnitude = v, units = ''m/s''\<rparr>\<rparr>))))))"
  unfolding va_acquire_def va_read_vtime_def va_read_lon_lat_def va_find_lev_500_def
    va_select_hght_def va_select_wind_def
  by (cases "num2date L (ds_times ds) (ds_times_units ds)")
    (simp_all add: and_then_assoc split: list.splits)

text \<open>
  C3 as stated fails on both paths. Positional path: the sample dataset with two times
  holds the requested time (18Z, 405786 hours since the epoch) at time position 1 and the
  level 500 at level position 2, and is as long as its coordinate arrays; the acquisition
  cell completes and binds the slices stored at time position 0, the 12Z ones. Label
  path: in the sample dataset whose vertical coordinate holds 500 twice both requested
  labels are present, and the selection returns, for each variable, not a 2-D slice but
  the array that keeps the level dimension with its two matching positions.
\<close>

theorem selected_slice_not_at_requested_labels:
  "nc_consistent sample_ds_two_times \<and>
   ds_times sample_ds_two_times ! 1 = 405786 \<and>
   ds_isobaric sample_ds_two_times ! 2 = 500 \<and>
   ds_hght sample_ds_two_times ! 1 ! 2 = Given ''hght 18Z 500'' \<and>
   ds_uwnd sample_ds_two_times ! 1 ! 2 = Given ''u 18Z 500'' \<and>
   ds_vwnd sample_ds_two_times ! 1 ! 2 = Given ''v 18Z 500'' \<and>
   va_acquire recording_lib sample_ds_two_times va_blank = Inr va_sample_two_times \<and>
   va_hght_500 va_sample_two_times =
     \<lparr>magnitude = Smoothed (Given ''hght 12Z 500'') 3 0, units = ''meter''\<rparr> \<and>
   va_uwnd_500 va_sample_two_times = \<lparr>magnitude = Given ''u 12Z 500'', units = ''m/s''\<rparr> \<and>
   va_vwnd_500 va_sample_two_times = \<lparr>magnitude = Given ''v 12Z 500'', units = ''m/s''\<rparr> \<and>
   xr_consistent sample_data_repeated_500 \<and>
   xr_vtimes xr_sample = [From_seconds 1460829600] \<and>
   datetime64 recording_lib (From_seconds 1460829600) \<in> set (data_time1 sample_data_repeated_500) \<and>
   500 \<in> set (data_isobaric sample_data_repeated_500) \<and>
   xr_select recording_lib sample_data_repeated_500 xr_sample =
     Inr (xr_sample\<lparr>xr_hght_500 := Stacked [1] [1, 2], xr_uwnd_500 := Stacked [1] [1, 2],
            xr_vwnd_500 := Stacked [1] [1, 2]\<rparr>)"
proof -
  have "va_acquire recording_lib sample_ds_two_times va_blank = Inr va_sample_two_times"
    by (simp add: va_acquire_def va_read_lon_lat_def va_read_vtime_def va_find_lev_500_def
        va_select_hght_def va_select_wind_def positions_def index2_def upt_conv_Cons
        sample_ds_two_times_def sample_ds_def va_sample_two_times_def va_blank_def
        recording_lib_def)
  moreover have "xr_select recording_lib sample_data_repeated_500 xr_sample =
     Inr (xr_sample\<lparr>xr_hght_500 := Stacked [1] [1, 2], xr_uwnd_500 := Stacked [1] [1, 2],
            xr_vwnd_500 := Stacked [1] [1, 2]\<rparr>)"
    by (simp add: xr_select_def sel_def positions_def upt_conv_Cons Let_def
        sample_data_repeated_500_def sample_data_def xr_sample_def recording_lib_def)
  moreover have "nc_consistent sample_ds_two_times" "xr_consistent sample_data_repeated_500"
    by (simp_all add: nc_consistent_def xr_consistent_def consistent_def
        sample_ds_two_times_def sample_ds_def sample_data_repeated_500_def sample_data_def)
  ultimately show ?thesis
    by (simp add: sample_ds_two_times_def sample_ds_def va_sample_two_times_def
        sample_data_repeated_500_def sample_data_def xr_sample_def recording_lib_def)
qed

text \<open>
  C3 as amended. Positional path, for a dataset whose variables are as long as their
  coordinate arrays, that has a time and whose levels include 500: the level position
  \<open>k\<close> is the first one whose level equals 500, found by exact equality search, and the
  acquisition cell reads the three variables at time position 0 and level position \<open>k\<close>:
  it binds the wind slices stored there as they are and the height slice stored there
  after the filter (and fails only if \<^verbatim>\<open>num2date\<close> or the filter does). The time
  coordinate is not searched. Label path, when the label of \<^verbatim>\<open>vtimes[0]\<close> occurs once in
  \<^verbatim>\<open>time1\<close> and 500 occurs once in \<^verbatim>\<open>isobaric\<close>: the three selections return exactly
  the 2-D slices stored at the positions \<open>i\<close> and \<open>k\<close> of these labels.
\<close>

theorem selected_slice_is_stored_slice:
  "(nc_consistent ds \<and> ds_times ds \<noteq> [] \<and> 500 \<in> set (ds_isobaric ds) \<longrightarrow>
      (\<exists>k. k < length (ds_isobaric ds) \<and> ds_isobaric ds ! k = 500 \<and>
            (\<forall>j<k. ds_isobaric ds ! j \<noteq> 500) \<and>
            va_acquire L ds s =
              and_then (num2date L (ds_times ds) (ds_times_units ds))
                (\<lambda>t. and_then (gaussian_filter L (ds_hght ds ! 0 ! k) 3 0)
                  (\<lambda>smooth. Inr (s\<lparr>va_lon := ds_lon ds, va_lat := ds_lat ds, va_vtime := t,
                        va_lev_500 := k,
                        va_hght_500 := \<lparr>magnitude = smooth, units = ''meter''\<rparr>,
                        va_uwnd_500 := \<lparr>magnitude = ds_uwnd ds ! 0 ! k, units = ''m/s''\<rparr>,
                        va_vwnd_500 := \<lparr>magnitude = ds_vwnd ds ! 0 ! k, units = ''m/s''\<rparr>\<rparr>))))) \<and>
   (xr_consistent data \<and> xr_vtimes x = t0 # rest \<and>
    count_list (data_time1 data) (datetime64 L t0) = 1 \<and>
    count_list (data_isobaric data) 500 = 1 \<longrightarrow>
      (\<exists>i k. i < length (data_time1 data) \<and> data_time1 data ! i = datetime64 L t0 \<and>
              k < length (data_isobaric data) \<and> data_isobaric data ! k = 500 \<and>
              xr_select L data x =
                Inr (x\<lparr>xr_hght_500 := Slice (data_hght data ! i ! k),
                       xr_uwnd_500 := Slice (data_uwnd data ! i ! k),
                       xr_vwnd_500 := Slice (data_vwnd data ! i ! k)\<rparr>)))"
proof (intro conjI impI)
  assume "nc_consistent ds \<and> ds_times ds \<noteq> [] \<and> 500 \<in> set (ds_isobaric ds)"
  then have wf: "consistent (ds_times ds) (ds_isobaric ds) [ds_hght ds, ds_uwnd ds, ds_vwnd ds]"
    and time: "0 < length (ds_times ds)" and present: "500 \<in> set (ds_isobaric ds)"
    by (simp_all add: nc_consistent_def)
  obtain k others where found: "positions (ds_isobaric ds) 500 = k # others"
    using positions_present [OF present] by (cases "positions (ds_isobaric ds) 500") auto
  note first = positions_first [OF found]
  have slices: "index2 (ds_hght ds) 0 k = Inr (ds_hght ds ! 0 ! k)"
    "index2 (ds_uwnd ds) 0 k = Inr (ds_uwnd ds ! 0 ! k)"
    "index2 (ds_vwnd ds) 0 k = Inr (ds_vwnd ds ! 0 ! k)"
    using index2_consistent [OF wf _ time] first by simp_all
  have "va_acquire L ds s =
      and_then (num2date L (ds_times ds) (ds_times_units ds))
        (\<lambda>t. and_then (gaussian_filter L (ds_hght ds ! 0 ! k) 3 0)
          (\<lambda>smooth. Inr (s\<lparr>va_lon := ds_lon ds, va_lat := ds_lat ds, va_vtime := t,
                va_lev_500 := k,
                va_hght_500 := \<lparr>magnitude = smooth, units = ''meter''\<rparr>,
                va_uwnd_500 := \<lparr>magnitude = ds_uwnd ds ! 0 ! k, units = ''m/s''\<rparr>,
                va_vwnd_500 := \<lparr>magnitude = ds_vwnd ds ! 0 ! k, units = ''m/s''\<rparr>\<rparr>)))"
    by (simp add: va_acquire_flat found slices)
  with first show "\<exists>k. k < length (ds_isobaric ds) \<and> ds_isobaric ds ! k = 500 \<and>
            (\<forall>j<k. ds_isobaric ds ! j \<noteq> 500) \<and>
            va_acquire L ds s =
              and_then (num2date L (ds_times ds) (ds_times_units ds))
                (\<lambda>t. and_then (gaussian_filter L (ds_hght ds ! 0 ! k) 3 0)
                  (\<lambda>smooth. Inr (s\<lparr>va_lon := ds_lon ds, va_lat := ds_lat ds, va_vtime := t,
                        va_lev_500 := k,
                        va_hght_500 := \<lparr>magnitude = smooth, units = ''meter''\<rparr>,
                        va_uwnd_500 := \<lparr>magnitude = ds_uwnd ds ! 0 ! k, units = ''m/s''\<rparr>,
                        va_vwnd_500 := \<lparr>magnitude = ds_vwnd ds ! 0 ! k, units = ''m/s''\<rparr>\<rparr>)))"
    by blast
next
  assume "xr_consistent data \<and> xr_vtimes x = t0 # rest \<and>
    count_list (data_time1 data) (datetime64 L t0) = 1 \<and>
    count_list (data_isobaric data) 500 = 1"
  then have wf: "consistent (data_time1 data) (data_isobaric data)
        [data_hght data, data_uwnd data, data_vwnd data]"
    and first: "xr_vtimes x = t0 # rest"
    and time: "count_list (data_time1 data) (datetime64 L t0) = 1"
    and level: "count_list (data_isobaric data) 500 = 1"
    by (simp_all add: xr_consistent_def)
  obtain i where i: "i < length (data_time1 data)" "data_time1 data ! i = datetime64 L t0"
    "positions (data_time1 data) (datetime64 L t0) = [i]"
    using positions_once [OF time] by blast
  obtain k where k: "k < length (data_isobaric data)" "data_isobaric data ! k = 500"
    "positions (data_isobaric data) 500 = [k]"
    using positions_once [OF level] by blast
  have slices:
    "sel (data_time1 data) (data_isobaric data) (data_hght data) (datetime64 L t0) 500
       = Inr (Slice (data_hght data ! i ! k))"
    "sel (data_time1 data) (data_isobaric data) (data_uwnd data) (datetime64 L t0) 500
       = Inr (Slice (data_uwnd data ! i ! k))"
    "sel (data_time1 data) (data_isobaric data) (data_vwnd data) (datetime64 L t0) 500
       = Inr (Slice (data_vwnd data ! i ! k))"
    using sel_once [OF wf _ i(3) k(3) i(1) k(1)] by simp_all
  have "xr_select L data x =
          Inr (x\<lparr>xr_hght_500 := Slice (data_hght data ! i ! k),
                 xr_uwnd_500 := Slice (data_uwnd data ! i ! k),
                 xr_vwnd_500 := Slice (data_vwnd data ! i ! k)\<rparr>)"
    by (simp add: xr_select_def first slices)
  with i k show "\<exists>i k. i < length (data_time1 data) \<and> data_time1 data ! i = datetime64 L t0 \<and>
              k < length (data_isobaric data) \<and> data_isobaric data ! k = 500 \<and>
              xr_select L data x =
                Inr (x\<lparr>xr_hght_500 := Slice (data_hght data ! i ! k),
                       xr_uwnd_500 := Slice (data_uwnd data ! i ! k),
                       xr_vwnd_500 := Slice (data_vwnd data ! i ! k)\<rparr>)"
    by blast
qed

theorem selected_slice_is_stored_slice_witness:
  "(nc_consistent sample_ds \<and> ds_times sample_ds \<noteq> [] \<and> 500 \<in> set (ds_isobaric sample_ds)) \<and>
   va_acquire recording_lib sample_ds va_blank = Inr va_sample \<and>
   (\<exists>k. k < length (ds_isobaric sample_ds) \<and> ds_isobaric sample_ds ! k = 500 \<and>
         va_uwnd_500 va_sample = \<lparr>magnitude = ds_uwnd sample_ds ! 0 ! k, units = ''m/s''\<rparr> \<and>
         va_vwnd_500 va_sample = \<lparr>magnitude = ds_vwnd sample_ds ! 0 ! k, units = ''m/s''\<rparr> \<and>
         gaussian_filter recording_lib (ds_hght sample_ds ! 0 ! k) 3 0
           = Inr (magnitude (va_hght_500 va_sample))) \<and>
   (xr_consistent sample_data \<and> xr_vtimes xr_sample = [From_seconds 1460829600] \<and>
    count_list (data_time1 sample_data) (datetime64 recording_lib (From_seconds 1460829600)) = 1 \<and>
    count_list (data_isobaric sample_data) 500 = 1) \<and>
   (\<exists>i k. data_time1 sample_data ! i = 1460829600000000000 \<and>
           data_isobaric sample_data ! k = 500 \<and>
           xr_select recording_lib sample_data xr_sample =
             Inr (xr_sample\<lparr>xr_hght_500 := Slice (data_hght sample_data ! i ! k),
                    xr_uwnd_500 := Slice (data_uwnd sample_data ! i ! k),
                    xr_vwnd_500 := Slice (data_vwnd sample_data ! i ! k)\<rparr>))"
proof -
  have positional:
    "nc_consistent sample_ds \<and> ds_times sample_ds \<noteq> [] \<and> 500 \<in> set (ds_isobaric sample_ds)"
    by (simp add: nc_consistent_def consistent_def sample_ds_def)
  have stamp: "datetime64 recording_lib (From_seconds 1460829600) = 1460829600000000000"
    by (simp add: recording_lib_def)
  have label: "xr_consistent sample_data \<and> xr_vtimes xr_sample = [From_seconds 1460829600] \<and>
    count_list (data_time1 sample_data) (datetime64 recording_lib (From_seconds 1460829600)) = 1 \<and>
    count_list (data_isobaric sample_data) 500 = 1"
    unfolding stamp
    by (simp add: xr_consistent_def consistent_def sample_data_def xr_sample_def)
  note both = selected_slice_is_stored_slice [of sample_ds recording_lib va_blank sample_data
      xr_sample "From_seconds 1460829600" "[]"]
  obtain k where k: "k < length (ds_isobaric sample_ds)" "ds_isobaric sample_ds ! k = 500"
    "va_acquire recording_lib sample_ds va_blank =
       and_then (num2date recording_lib (ds_times sample_ds) (ds_times_units sample_ds))
         (\<lambda>t. and_then (gaussian_filter recording_lib (ds_hght sample_ds ! 0 ! k) 3 0)
           (\<lambda>smooth. Inr (va_blank\<lparr>va_lon := ds_lon sample_ds, va_lat := ds_lat sample_ds,
                 va_vtime := t, va_lev_500 := k,
                 va_hght_500 := \<lparr>magnitude = smooth, units = ''meter''\<rparr>,
                 va_uwnd_500 := \<lparr>magnitude = ds_uwnd sample_ds ! 0 ! k, units = ''m/s''\<rparr>,
                 va_vwnd_500 := \<lparr>magnitude = ds_vwnd sample_ds ! 0 ! k, units = ''m/s''\<rparr>\<rparr>)))"
    using both positional by blast
  have acquired: "va_sample =
      va_blank\<lparr>va_lon := ds_lon sample_ds, va_lat := ds_lat sample_ds,
        va_vtime := Decoded (ds_times sample_ds) (ds_times_units sample_ds), va_lev_500 := k,
        va_hght_500 := \<lparr>magnitude = Smoothed (ds_hght sample_ds ! 0 ! k) 3 0,
                         units = ''meter''\<rparr>,
        va_uwnd_500 := \<lparr>magnitude = ds_uwnd sample_ds ! 0 ! k, units = ''m/s''\<rparr>,
        va_vwnd_500 := \<lparr>magnitude = ds_vwnd sample_ds ! 0 ! k, units = ''m/s''\<rparr>\<rparr>"
    using k(3) sample_acquire by (simp add: recording_lib_def)
  have "va_uwnd_500 va_sample = \<lparr>magnitude = ds_uwnd sample_ds ! 0 ! k, units = ''m/s''\<rparr>"
    by (subst acquired) simp
  moreover have
    "va_vwnd_500 va_sample = \<lparr>magnitude = ds_vwnd sample_ds ! 0 ! k, units = ''m/s''\<rparr>"
    by (subst acquired) simp
  moreover have "gaussian_filter recording_lib (ds_hght sample_ds ! 0 ! k) 3 0
           = Inr (magnitude (va_hght_500 va_sample))"
    by (subst acquired) (simp add: recording_lib_def)
  ultimately have "va_uwnd_500 va_sample = \<lparr>magnitude = ds_uwnd sample_ds ! 0 ! k, units = ''m/s''\<rparr> \<and>
         va_vwnd_500 va_sample = \<lparr>magnitude = ds_vwnd sample_ds ! 0 ! k, units = ''m/s''\<rparr> \<and>
         gaussian_filter recording_lib (ds_hght sample_ds ! 0 ! k) 3 0
           = Inr (magnitude (va_hght_500 va_sample))"
    by blast
  with k have "\<exists>k. k < length (ds_isobaric sample_ds) \<and> ds_isobaric sample_ds ! k = 500 \<and>
         va_uwnd_500 va_sample = \<lparr>magnitude = ds_uwnd sample_ds ! 0 ! k, units = ''m/s''\<rparr> \<and>
         va_vwnd_500 va_sample = \<lparr>magnitude = ds_vwnd sample_ds ! 0 ! k, units = ''m/s''\<rparr> \<and>
         gaussian_filter recording_lib (ds_hght sample_ds ! 0 ! k) 3 0
           = Inr (magnitude (va_hght_500 va_sample))"
    by blast
  moreover have "\<exists>i k. data_time1 sample_data ! i = 1460829600000000000 \<and>
           data_isobaric sample_data ! k = 500 \<and>
           xr_select recording_lib sample_data xr_sample =
             Inr (xr_sample\<lparr>xr_hght_500 := Slice (data_hght sample_data ! i ! k),
                    xr_uwnd_500 := Slice (data_uwnd sample_data ! i ! k),
                    xr_vwnd_500 := Slice (data_vwnd sample_data ! i ! k)\<rparr>)"
    using both label unfolding stamp by blast
  ultimately show ?thesis
    using positional label sample_acquire by blast
qed

section \<open>The valid time\<close>

text \<open>No statement after its creation assigns the valid time.\<close>

lemma va_find_lev_500_vtime: "va_find_lev_500 ds s = Inr s' \<Longrightarrow> va_vtime s' = va_vtime s"
  by (auto simp: va_find_lev_500_def split: list.splits)

lemma va_select_hght_vtime: "va_select_hght L ds s = Inr s' \<Longrightarrow> va_vtime s' = va_vtime s"
  by (auto simp: va_select_hght_def and_then_Inr_iff)

lemma va_select_wind_vtime: "va_select_wind ds s = Inr s' \<Longrightarrow> va_vtime s' = va_vtime s"
  by (auto simp: va_select_wind_def and_then_Inr_iff)

lemma va_grid_deltas_vtime: "va_grid_deltas L s = Inr s' \<Longrightarrow> va_vtime s' = va_vtime s"
  by (auto simp: va_grid_deltas_def and_then_Inr_iff)

lemma va_coriolis_vtime: "va_coriolis L s = Inr s' \<Longrightarrow> va_vtime s' = va_vtime s"
  by (auto simp: va_coriolis_def and_then_Inr_iff)

lemma va_absolute_vorticity_vtime:
  "va_absolute_vorticity L s = Inr s' \<Longrightarrow> va_vtime s' = va_vtime s"
  by (auto simp: va_absolute_vorticity_def and_then_Inr_iff)

lemma va_smooth_avor_vtime: "va_smooth_avor L s = Inr s' \<Longrightarrow> va_vtime s' = va_vtime s"
  by (auto simp: va_smooth_avor_def and_then_Inr_iff)

lemma va_advect_vtime: "va_advect L s = Inr s' \<Longrightarrow> va_vtime s' = va_vtime s"
  by (auto simp: va_advect_def and_then_Inr_iff)

lemma va_calc_vtime:
  assumes "va_calc L s = Inr s'"
  shows "va_vtime s' = va_vtime s"
proof -
  obtain s1 s2 s3 s4 where "va_grid_deltas L s = Inr s1" "va_coriolis L s1 = Inr s2"
    "va_absolute_vorticity L s2 = Inr s3" "va_smooth_avor L s3 = Inr s4"
    "va_advect L s4 = Inr s'"
    using assms unfolding va_calc_def va_calc_avor_def and_then_Inr_iff by blast
  then show ?thesis
    using va_grid_deltas_vtime va_coriolis_vtime va_absolute_vorticity_vtime
      va_smooth_avor_vtime va_advect_vtime by metis
qed

lemma va_plot_vtime: "va_vtime (va_plot L s) = va_vtime s"
  by (simp add: va_plot_def)

lemma va_acquire_vtime:
  assumes "va_acquire L ds s = Inr s'"
  shows "num2date L (ds_times ds) (ds_times_units ds) = Inr (va_vtime s')"
proof -
  obtain s1 s2 s3 where steps: "va_read_vtime L ds (va_read_lon_lat ds s) = Inr s1"
    "va_find_lev_500 ds s1 = Inr s2" "va_select_hght L ds s2 = Inr s3"
    "va_select_wind ds s3 = Inr s'"
    using assms unfolding va_acquire_def and_then_Inr_iff by blast
  have "num2date L (ds_times ds) (ds_times_units ds) = Inr (va_vtime s1)"
    using steps(1) by (auto simp: va_read_vtime_def and_then_Inr_iff)
  moreover have "va_vtime s' = va_vtime s1"
    using steps(2-4) va_find_lev_500_vtime va_select_hght_vtime va_select_wind_vtime by metis
  ultimately show ?thesis by simp
qed

lemma xr_select_frame:
  "xr_select L data x = Inr x' \<Longrightarrow>
   xr_vtimes x' = xr_vtimes x \<and>
   (\<exists>t0 rest. xr_vtimes x = t0 # rest \<and>
      sel (data_time1 data) (data_isobaric data) (data_hght data) (datetime64 L t0) 500
        = Inr (xr_hght_500 x') \<and>
      sel (data_time1 data) (data_isobaric data) (data_uwnd data) (datetime64 L t0) 500
        = Inr (xr_uwnd_500 x') \<and>
      sel (data_time1 data) (data_isobaric data) (data_vwnd data) (datetime64 L t0) 500
        = Inr (xr_vwnd_500 x'))"
  by (auto simp: xr_select_def and_then_Inr_iff split: list.splits)

lemma xr_plot_iff:
  "xr_plot L x = Inr x' \<longleftrightarrow>
     (\<exists>h u v smooth t0 rest.
        xr_hght_500 x = Slice h \<and> xr_uwnd_500 x = Slice u \<and> xr_vwnd_500 x = Slice v \<and>
        gaussian_filter L h 5 0 = Inr smooth \<and> xr_vtimes x = t0 # rest \<and>
        x' = x\<lparr>xr_layers := [Contour smooth, Barbs u v],
               xr_title_left := ''500-hPa Geopotential Heights (m)'',
               xr_title_right := ''VALID: '' @ format_time L t0\<rparr>)"
  by (cases "xr_hght_500 x"; cases "xr_uwnd_500 x"; cases "xr_vwnd_500 x"; cases "xr_vtimes x")
    (auto simp: xr_plot_def and_then_Inr_iff)

lemma xr_plot_frame:
  "xr_plot L x = Inr x' \<Longrightarrow>
   xr_vtimes x' = xr_vtimes x \<and> xr_hght_500 x' = xr_hght_500 x \<and>
   xr_uwnd_500 x' = xr_uwnd_500 x \<and> xr_vwnd_500 x' = xr_vwnd_500 x \<and>
   (\<exists>t0 rest. xr_vtimes x = t0 # rest \<and> xr_title_right x' = ''VALID: '' @ format_time L t0)"
  unfolding xr_plot_iff by auto

text \<open>
  C9. The valid time is computed once and not changed afterwards. Vorticity-advection
  notebook: a run that completes decoded the time coordinate with \<^verbatim>\<open>num2date\<close>, the
  namespace still holds that value at the end, no statement after the creation (the level
  search, the two selections, the calculation cell, the map cell) changes it, and the
  right-hand title is \<^verbatim>\<open>VALID: \<close> followed by it. Xarray notebook: a run that completes
  built \<^verbatim>\<open>vtimes\<close> in the loop over the time coordinate, the namespace still holds that
  list at the end, its first element is the time key of all three selections and the one
  interpolated into the right-hand title.
\<close>

theorem valid_time_not_mutated:
  "(va_notebook L ds s = Inr s' \<longrightarrow>
      num2date L (ds_times ds) (ds_times_units ds) = Inr (va_vtime s') \<and>
      va_title_right s' = ''VALID: '' @ format_time L (va_vtime s')) \<and>
   (va_find_lev_500 ds s1 = Inr s2 \<longrightarrow> va_vtime s2 = va_vtime s1) \<and>
   (va_select_hght L ds s1 = Inr s2 \<longrightarrow> va_vtime s2 = va_vtime s1) \<and>
   (va_select_wind ds s1 = Inr s2 \<longrightarrow> va_vtime s2 = va_vtime s1) \<and>
   (va_calc L s1 = Inr s2 \<longrightarrow> va_vtime s2 = va_vtime s1) \<and>
   va_vtime (va_plot L s1) = va_vtime s1 \<and>
   (xr_notebook L data x = Inr x' \<longrightarrow>
      xr_vtimes_loop L (data_time data) [] = Inr (xr_vtimes x') \<and>
      (\<exists>t0 rest. xr_vtimes x' = t0 # rest \<and>
         sel (data_time1 data) (data_isobaric data) (data_hght data) (datetime64 L t0) 500
           = Inr (xr_hght_500 x') \<and>
         sel (data_time1 data) (data_isobaric data) (data_uwnd data) (datetime64 L t0) 500
           = Inr (xr_uwnd_500 x') \<and>
         sel (data_time1 data) (data_isobaric data) (data_vwnd data) (datetime64 L t0) 500
           = Inr (xr_vwnd_500 x') \<and>
         xr_title_right x' = ''VALID: '' @ format_time L t0))"
proof (intro conjI impI)
  assume run: "va_notebook L ds s = Inr s'"
  then obtain a c where steps: "va_acquire L ds s = Inr a" "va_calc L a = Inr c"
    "s' = va_plot L c"
    unfolding va_notebook_def and_then_Inr_iff by auto
  have kept: "va_vtime s' = va_vtime a"
    using steps(2,3) va_calc_vtime va_plot_vtime by metis
  show "num2date L (ds_times ds) (ds_times_units ds) = Inr (va_vtime s')"
    using va_acquire_vtime [OF steps(1)] kept by simp
  show "va_title_right s' = ''VALID: '' @ format_time L (va_vtime s')"
    using steps(2,3) va_calc_vtime [OF steps(2)] by (simp add: va_plot_def)
next
  assume "va_find_lev_500 ds s1 = Inr s2"
  then show "va_vtime s2 = va_vtime s1" by (rule va_find_lev_500_vtime)
next
  assume "va_select_hght L ds s1 = Inr s2"
  then show "va_vtime s2 = va_vtime s1" by (rule va_select_hght_vtime)
next
  assume "va_select_wind ds s1 = Inr s2"
  then show "va_vtime s2 = va_vtime s1" by (rule va_select_wind_vtime)
next
  assume "va_calc L s1 = Inr s2"
  then show "va_vtime s2 = va_vtime s1" by (rule va_calc_vtime)
next
  show "va_vtime (va_plot L s1) = va_vtime s1" by (rule va_plot_vtime)
next
  assume run: "xr_notebook L data x = Inr x'"
  then obtain a b where steps: "xr_read_vtimes L data x = Inr a" "xr_select L data a = Inr b"
    "xr_plot L b = Inr x'"
    unfolding xr_notebook_def and_then_Inr_iff by auto
  have created: "xr_vtimes_loop L (data_time data) [] = Inr (xr_vtimes a)"
    using steps(1) by (auto simp: xr_read_vtimes_def and_then_Inr_iff)
  note selected = xr_select_frame [OF steps(2)]
  note plotted = xr_plot_frame [OF steps(3)]
  have same: "xr_vtimes x' = xr_vtimes a"
    using selected plotted by simp
  show "xr_vtimes_loop L (data_time data) [] = Inr (xr_vtimes x')"
    using created same by simp
  show "\<exists>t0 rest. xr_vtimes x' = t0 # rest \<and>
         sel (data_time1 data) (data_isobaric data) (data_hght data) (datetime64 L t0) 500
           = Inr (xr_hght_500 x') \<and>
         sel (data_time1 data) (data_isobaric data) (data_uwnd data) (datetime64 L t0) 500
           = Inr (xr_uwnd_500 x') \<and>
         sel (data_time1 data) (data_isobaric data) (data_vwnd data) (datetime64 L t0) 500
           = Inr (xr_vwnd_500 x') \<and>
         xr_title_right x' = ''VALID: '' @ format_time L t0"
    using selected plotted same by auto
qed

theorem valid_time_not_mutated_witness:
  "va_notebook recording_lib sample_ds va_blank = Inr va_sample_drawn \<and>
   num2date recording_lib (ds_times sample_ds) (ds_times_units sample_ds)
     = Inr (va_vtime va_sample_drawn) \<and>
   va_title_right va_sample_drawn
     = ''VALID: '' @ format_time recording_lib (va_vtime va_sample_drawn) \<and>
   va_calc recording_lib va_sample = Inr va_sample_done \<and>
   va_vtime va_sample_done = va_vtime va_sample \<and>
   xr_notebook recording_lib sample_data xr_blank = Inr xr_sample_drawn \<and>
   xr_vtimes_loop recording_lib (data_time sample_data) [] = Inr (xr_vtimes xr_sample_drawn) \<and>
   (\<exists>t0 rest. xr_vtimes xr_sample_drawn = t0 # rest \<and>
      sel (data_time1 sample_data) (data_isobaric sample_data) (data_hght sample_data)
        (datetime64 recording_lib t0) 500 = Inr (xr_hght_500 xr_sample_drawn) \<and>
      xr_title_right xr_sample_drawn = ''VALID: '' @ format_time recording_lib t0)"
  using valid_time_not_mutated [where L = recording_lib and ds = sample_ds and s = va_blank
      and s' = va_sample_drawn and ?s1.0 = va_sample and ?s2.0 = va_sample_done
      and data = sample_data and x = xr_blank and x' = xr_sample_drawn]
    sample_va_notebook sample_calc sample_xr_notebook
  by blast

section \<open>The calculation cell\<close>

text \<open>Each statement succeeds exactly when its library calls do, and binds their results.\<close>

lemma va_grid_deltas_iff:
  "va_grid_deltas L s = Inr s1 \<longleftrightarrow>
     (\<exists>gx gy. lat_lon_grid_deltas L (va_lon s) (va_lat s) = Inr (gx, gy) \<and>
        s1 = s\<lparr>va_dx := gx, va_dy := gy\<rparr>)"
  unfolding va_grid_deltas_def by (auto simp: and_then_Inr_iff)

lemma va_coriolis_iff:
  "va_coriolis L s = Inr s1 \<longleftrightarrow>
     (\<exists>f0 cor. coriolis_parameter L (deg2rad L (va_lat s)) = Inr f0 \<and>
        to_units L f0 ''1/sec'' = Inr cor \<and> s1 = s\<lparr>va_f := cor\<rparr>)"
  unfolding va_coriolis_def by (auto simp: and_then_Inr_iff)

lemma va_absolute_vorticity_iff:
  "va_absolute_vorticity L s = Inr s1 \<longleftrightarrow>
     (\<exists>rel a. vorticity L (va_uwnd_500 s) (va_vwnd_500 s) (va_dx s) (va_dy s) ''yx'' = Inr rel \<and>
        quantity_add L rel (va_f s) = Inr a \<and> s1 = s\<lparr>va_avor := a\<rparr>)"
  unfolding va_absolute_vorticity_def by (auto simp: and_then_Inr_iff)

lemma va_smooth_avor_iff:
  "va_smooth_avor L s = Inr s1 \<longleftrightarrow>
     (\<exists>smooth. gaussian_filter L (magnitude (va_avor s)) 3 0 = Inr smooth \<and>
        s1 = s\<lparr>va_avor := \<lparr>magnitude = smooth, units = ''1/s''\<rparr>\<rparr>)"
  unfolding va_smooth_avor_def by (auto simp: and_then_Inr_iff)

lemma va_advect_iff:
  "va_advect L s = Inr s1 \<longleftrightarrow>
     (\<exists>adv. advection L (va_avor s) [va_uwnd_500 s, va_vwnd_500 s] (va_dx s, va_dy s) ''yx''
          = Inr adv \<and>
        s1 = s\<lparr>va_vort_adv := \<lparr>magnitude = times_scalar L (magnitude adv) (10 ^ 9),
                                 units = units adv\<rparr>\<rparr>)"
  unfolding va_advect_def by (auto simp: and_then_Inr_iff)

lemma va_calc_avor_iff:
  "va_calc_avor L s = Inr s1 \<longleftrightarrow>
     (\<exists>gx gy f0 cor rel a.
        lat_lon_grid_deltas L (va_lon s) (va_lat s) = Inr (gx, gy) \<and>
        coriolis_parameter L (deg2rad L (va_lat s)) = Inr f0 \<and>
        to_units L f0 ''1/sec'' = Inr cor \<and>
        vorticity L (va_uwnd_500 s) (va_vwnd_500 s) gx gy ''yx'' = Inr rel \<and>
        quantity_add L rel cor = Inr a \<and>
        s1 = s\<lparr>va_dx := gx, va_dy := gy, va_f := cor, va_avor := a\<rparr>)"
  unfolding va_calc_avor_def
  by (rule iffI; clarsimp simp: and_then_Inr_iff va_grid_deltas_iff va_coriolis_iff
      va_absolute_vorticity_iff)

text \<open>
  C1. The calculation cell completes exactly when its library calls succeed, and then:
  the grid spacings \<open>gx, gy\<close> are \<^verbatim>\<open>lat_lon_grid_deltas\<close> of the longitude and latitude
  arrays; the Coriolis parameter \<open>cor\<close> is \<^verbatim>\<open>coriolis_parameter\<close> of the latitude in
  radians, converted to \<^verbatim>\<open>1/sec\<close>; the absolute vorticity \<open>a\<close>, the value of \<^verbatim>\<open>avor\<close>
  after its first assignment, is the relative vorticity of the wind pair with spacings
  \<open>gx, gy\<close> plus \<open>cor\<close>; and \<^verbatim>\<open>vort_adv\<close> is the advection of the smoothed absolute
  vorticity by the same wind pair with the same \<open>gx, gy\<close>, stored times \<open>10^9\<close>. Nothing
  else in the namespace changes.
\<close>

theorem va_calc_assembly:
  "va_calc L s = Inr s' \<longleftrightarrow>
     (\<exists>gx gy f0 cor rel a smooth adv.
        lat_lon_grid_deltas L (va_lon s) (va_lat s) = Inr (gx, gy) \<and>
        coriolis_parameter L (deg2rad L (va_lat s)) = Inr f0 \<and>
        to_units L f0 ''1/sec'' = Inr cor \<and>
        vorticity L (va_uwnd_500 s) (va_vwnd_500 s) gx gy ''yx'' = Inr rel \<and>
        quantity_add L rel cor = Inr a \<and>
        va_calc_avor L s = Inr (s\<lparr>va_dx := gx, va_dy := gy, va_f := cor, va_avor := a\<rparr>) \<and>
        gaussian_filter L (magnitude a) 3 0 = Inr smooth \<and>
        advection L \<lparr>magnitude = smooth, units = ''1/s''\<rparr> [va_uwnd_500 s, va_vwnd_500 s]
          (gx, gy) ''yx'' = Inr adv \<and>
        s' = s\<lparr>va_dx := gx, va_dy := gy, va_f := cor,
               va_avor := \<lparr>magnitude = smooth, units = ''1/s''\<rparr>,
               va_vort_adv := \<lparr>magnitude = times_scalar L (magnitude adv) (10 ^ 9),
                                units = units adv\<rparr>\<rparr>)"
proof
  assume "va_calc L s = Inr s'"
  then obtain s1 s2 where steps: "va_calc_avor L s = Inr s1" "va_smooth_avor L s1 = Inr s2"
    "va_advect L s2 = Inr s'"
    unfolding va_calc_def and_then_Inr_iff by blast
  obtain gx gy f0 cor rel a where calls:
    "lat_lon_grid_deltas L (va_lon s) (va_lat s) = Inr (gx, gy)"
    "coriolis_parameter L (deg2rad L (va_lat s)) = Inr f0"
    "to_units L f0 ''1/sec'' = Inr cor"
    "vorticity L (va_uwnd_500 s) (va_vwnd_500 s) gx gy ''yx'' = Inr rel"
    "quantity_add L rel cor = Inr a"
    and s1: "s1 = s\<lparr>va_dx := gx, va_dy := gy, va_f := cor, va_avor := a\<rparr>"
    using steps(1) unfolding va_calc_avor_iff by blast
  obtain smooth where smooth: "gaussian_filter L (magnitude (va_avor s1)) 3 0 = Inr smooth"
    and s2: "s2 = s1\<lparr>va_avor := \<lparr>magnitude = smooth, units = ''1/s''\<rparr>\<rparr>"
    using steps(2) unfolding va_smooth_avor_iff by blast
  obtain adv where adv:
    "advection L (va_avor s2) [va_uwnd_500 s2, va_vwnd_500 s2] (va_dx s2, va_dy s2) ''yx''
       = Inr adv"
    and s': "s' = s2\<lparr>va_vort_adv := \<lparr>magnitude = times_scalar L (magnitude adv) (10 ^ 9),
                                    units = units adv\<rparr>\<rparr>"
    using steps(3) unfolding va_advect_iff by blast
  have "va_calc_avor L s = Inr (s\<lparr>va_dx := gx, va_dy := gy, va_f := cor, va_avor := a\<rparr>)"
    using steps(1) s1 by simp
  moreover have "gaussian_filter L (magnitude a) 3 0 = Inr smooth"
    using smooth by (simp add: s1)
  moreover have "advection L \<lparr>magnitude = smooth, units = ''1/s''\<rparr>
      [va_uwnd_500 s, va_vwnd_500 s] (gx, gy) ''yx'' = Inr adv"
    using adv by (simp add: s2 s1)
  moreover have "s' = s\<lparr>va_dx := gx, va_dy := gy, va_f := cor,
               va_avor := \<lparr>magnitude = smooth, units = ''1/s''\<rparr>,
               va_vort_adv := \<lparr>magnitude = times_scalar L (magnitude adv) (10 ^ 9),
                                units = units adv\<rparr>\<rparr>"
    by (simp add: s' s2 s1)
  ultimately show "\<exists>gx gy f0 cor rel a smooth adv.
        lat_lon_grid_deltas L (va_lon s) (va_lat s) = Inr (gx, gy) \<and>
        coriolis_parameter L (deg2rad L (va_lat s)) = Inr f0 \<and>
        to_units L f0 ''1/sec'' = Inr cor \<and>
        vorticity L (va_uwnd_500 s) (va_vwnd_500 s) gx gy ''yx'' = Inr rel \<and>
        quantity_add L rel cor = Inr a \<and>
        va_calc_avor L s = Inr (s\<lparr>va_dx := gx, va_dy := gy, va_f := cor, va_avor := a\<rparr>) \<and>
        gaussian_filter L (magnitude a) 3 0 = Inr smooth \<and>
        advection L \<lparr>magnitude = smooth, units = ''1/s''\<rparr> [va_uwnd_500 s, va_vwnd_500 s]
          (gx, gy) ''yx'' = Inr adv \<and>
        s' = s\<lparr>va_dx := gx, va_dy := gy, va_f := cor,
               va_avor := \<lparr>magnitude = smooth, units = ''1/s''\<rparr>,
               va_vort_adv := \<lparr>magnitude = times_scalar L (magnitude adv) (10 ^ 9),
                                units = units adv\<rparr>\<rparr>"
    using calls by blast
next
  assume "\<exists>gx gy f0 cor rel a smooth adv.
        lat_lon_grid_deltas L (va_lon s) (va_lat s) = Inr (gx, gy) \<and>
        coriolis_parameter L (deg2rad L (va_lat s)) = Inr f0 \<and>
        to_units L f0 ''1/sec'' = Inr cor \<and>
        vorticity L (va_uwnd_500 s) (va_vwnd_500 s) gx gy ''yx'' = Inr rel \<and>
        quantity_add L rel cor = Inr a \<and>
        va_calc_avor L s = Inr (s\<lparr>va_dx := gx, va_dy := gy, va_f := cor, va_avor := a\<rparr>) \<and>
        gaussian_filter L (magnitude a) 3 0 = Inr smooth \<and>
        advection L \<lparr>magnitude = smooth, units = ''1/s''\<rparr> [va_uwnd_500 s, va_vwnd_500 s]
          (gx, gy) ''yx'' = Inr adv \<and>
        s' = s\<lparr>va_dx := gx, va_dy := gy, va_f := cor,
               va_avor := \<lparr>magnitude = smooth, units = ''1/s''\<rparr>,
               va_vort_adv := \<lparr>magnitude = times_scalar L (magnitude adv) (10 ^ 9),
                                units = units adv\<rparr>\<rparr>"
  then obtain gx gy cor a smooth adv where
    avor: "va_calc_avor L s = Inr (s\<lparr>va_dx := gx, va_dy := gy, va_f := cor, va_avor := a\<rparr>)"
    and smooth: "gaussian_filter L (magnitude a) 3 0 = Inr smooth"
    and adv: "advection L \<lparr>magnitude = smooth, units = ''1/s''\<rparr>
      [va_uwnd_500 s, va_vwnd_500 s] (gx, gy) ''yx'' = Inr adv"
    and s': "s' = s\<lparr>va_dx := gx, va_dy := gy, va_f := cor,
               va_avor := \<lparr>magnitude = smooth, units = ''1/s''\<rparr>,
               va_vort_adv := \<lparr>magnitude = times_scalar L (magnitude adv) (10 ^ 9),
                                units = units adv\<rparr>\<rparr>"
    by blast
  have "va_smooth_avor L (s\<lparr>va_dx := gx, va_dy := gy, va_f := cor, va_avor := a\<rparr>) =
      Inr (s\<lparr>va_dx := gx, va_dy := gy, va_f := cor,
             va_avor := \<lparr>magnitude = smooth, units = ''1/s''\<rparr>\<rparr>)"
    by (simp add: va_smooth_avor_def smooth)
  moreover have "va_advect L (s\<lparr>va_dx := gx, va_dy := gy, va_f := cor,
             va_avor := \<lparr>magnitude = smooth, units = ''1/s''\<rparr>\<rparr>) = Inr s'"
    by (simp add: va_advect_def adv s')
  ultimately show "va_calc L s = Inr s'"
    by (simp add: va_calc_def avor)
qed

theorem va_calc_assembly_witness:
  "va_calc recording_lib va_sample = Inr va_sample_done \<and>
   magnitude (va_avor va_sample_done) = Smoothed sample_avor 3 0 \<and>
   magnitude (va_vort_adv va_sample_done) =
     Scaled (Advection (Smoothed sample_avor 3 0) [Given ''u 500'', Given ''v 500'']
               (Delta_x (Given ''lon'') (Given ''lat'')) (Delta_y (Given ''lon'') (Given ''lat''))
               ''yx'')
            (10 ^ 9)"
proof -
  have "va_calc_avor recording_lib va_sample =
      Inr (va_sample\<lparr>
        va_dx := \<lparr>magnitude = Delta_x (Given ''lon'') (Given ''lat''), units = ''meter''\<rparr>,
        va_dy := \<lparr>magnitude = Delta_y (Given ''lon'') (Given ''lat''), units = ''meter''\<rparr>,
        va_f := \<lparr>magnitude = Converted (Coriolis (Radians (Given ''lat''))) ''1/second'' ''1/sec'',
                 units = ''1/sec''\<rparr>,
        va_avor := \<lparr>magnitude = sample_avor, units = ''1/second''\<rparr>\<rparr>)"
    by (simp add: va_calc_avor_def va_grid_deltas_def va_coriolis_def va_absolute_vorticity_def
        va_sample_def va_blank_def sample_avor_def recording_lib_def)
  then have "va_calc recording_lib va_sample = Inr va_sample_done"
    unfolding va_calc_assembly
    by (simp add: va_sample_done_def va_sample_def va_blank_def sample_avor_def
        sample_vort_adv_def recording_lib_def)
  then show ?thesis
    by (simp add: va_sample_done_def sample_vort_adv_def)
qed

section \<open>What reads a smoothed field\<close>

text \<open>
  C4 as stated fails. On the sample input the calculation cell completes, and the
  magnitudes of \<^verbatim>\<open>vort_adv\<close>, a derived quantity, are the advection of the output of the
  Gaussian filter: the derived-quantity computation reads a smoothed field.
\<close>

theorem advection_reads_smoothed_field:
  "va_calc recording_lib va_sample = Inr va_sample_done \<and>
   magnitude (va_vort_adv va_sample_done) =
     Scaled (Advection (Smoothed sample_avor 3 0) [Given ''u 500'', Given ''v 500'']
               (Delta_x (Given ''lon'') (Given ''lat'')) (Delta_y (Given ''lon'') (Given ''lat''))
               ''yx'')
            (10 ^ 9) \<and>
   reads_smoothed (magnitude (va_vort_adv va_sample_done))"
  by (simp add: sample_calc) (simp add: va_sample_done_def sample_vort_adv_def)

lemma frame_compose:
  assumes "\<And>s. f (u s) = map_sum id u (f s)" and "\<And>s. g (u s) = map_sum id u (g s)"
  shows "and_then (f (u s)) g = map_sum id u (and_then (f s) g)"
  by (cases "f s") (simp_all add: assms)

lemma and_then_frame:
  assumes "\<And>y. k' y = map_sum id u (k y)"
  shows "and_then r k' = map_sum id u (and_then r k)"
  by (cases r) (simp_all add: assms)

text \<open>The calculation cell does not read the smoothed height.\<close>

lemma va_grid_deltas_hght:
  "va_grid_deltas L (s\<lparr>va_hght_500 := h\<rparr>) =
     map_sum id (\<lambda>s. s\<lparr>va_hght_500 := h\<rparr>) (va_grid_deltas L s)"
  unfolding va_grid_deltas_def by (simp, intro and_then_frame) (simp add: split_beta)

lemma va_coriolis_hght:
  "va_coriolis L (s\<lparr>va_hght_500 := h\<rparr>) =
     map_sum id (\<lambda>s. s\<lparr>va_hght_500 := h\<rparr>) (va_coriolis L s)"
  unfolding va_coriolis_def by (simp, intro and_then_frame) simp

lemma va_absolute_vorticity_hght:
  "va_absolute_vorticity L (s\<lparr>va_hght_500 := h\<rparr>) =
     map_sum id (\<lambda>s. s\<lparr>va_hght_500 := h\<rparr>) (va_absolute_vorticity L s)"
  unfolding va_absolute_vorticity_def by (simp, intro and_then_frame) simp

lemma va_smooth_avor_hght:
  "va_smooth_avor L (s\<lparr>va_hght_500 := h\<rparr>) =
     map_sum id (\<lambda>s. s\<lparr>va_hght_500 := h\<rparr>) (va_smooth_avor L s)"
  unfolding va_smooth_avor_def by (simp, intro and_then_frame) simp

lemma va_advect_hght:
  "va_advect L (s\<lparr>va_hght_500 := h\<rparr>) =
     map_sum id (\<lambda>s. s\<lparr>va_hght_500 := h\<rparr>) (va_advect L s)"
  unfolding va_advect_def by (simp, intro and_then_frame) simp

lemma va_calc_avor_hght:
  "va_calc_avor L (s\<lparr>va_hght_500 := h\<rparr>) =
     map_sum id (\<lambda>s. s\<lparr>va_hght_500 := h\<rparr>) (va_calc_avor L s)"
  unfolding va_calc_avor_def
  by (intro frame_compose [where u = "\<lambda>s. s\<lparr>va_hght_500 := h\<rparr>"] va_grid_deltas_hght
      va_coriolis_hght va_absolute_vorticity_hght)

lemma va_calc_ignores_hght:
  "va_calc L (s\<lparr>va_hght_500 := h\<rparr>) = map_sum id (\<lambda>s'. s'\<lparr>va_hght_500 := h\<rparr>) (va_calc L s)"
  unfolding va_calc_def
  by (intro frame_compose [where u = "\<lambda>s. s\<lparr>va_hght_500 := h\<rparr>"] va_calc_avor_hght
      va_smooth_avor_hght va_advect_hght)

text \<open>The absolute vorticity before smoothing does not depend on the filter.\<close>

lemma va_calc_avor_ignores_filter:
  "va_calc_avor (L\<lparr>gaussian_filter := gf\<rparr>) s = va_calc_avor L s"
proof -
  have "va_absolute_vorticity (L\<lparr>gaussian_filter := gf\<rparr>) = va_absolute_vorticity L"
    by (rule ext) (simp add: va_absolute_vorticity_def)
  then show ?thesis
    by (simp add: va_calc_avor_def va_grid_deltas_def va_coriolis_def)
qed

text \<open>Whole runs, call by call.\<close>

lemma va_acquire_iff:
  "va_acquire L ds s = Inr s1 \<longleftrightarrow>
     (\<exists>t k rest raw smooth u v.
        num2date L (ds_times ds) (ds_times_units ds) = Inr t \<and>
        positions (ds_isobaric ds) 500 = k # rest \<and>
        index2 (ds_hght ds) 0 k = Inr raw \<and>
        gaussian_filter L raw 3 0 = Inr smooth \<and>
        index2 (ds_uwnd ds) 0 k = Inr u \<and>
        index2 (ds_vwnd ds) 0 k = Inr v \<and>
        s1 = s\<lparr>va_lon := ds_lon ds, va_lat := ds_lat ds, va_vtime := t, va_lev_500 := k,
               va_hght_500 := \<lparr>magnitude = smooth, units = ''meter''\<rparr>,
               va_uwnd_500 := \<lparr>magnitude = u, units = ''m/s''\<rparr>,
               va_vwnd_500 := \<lparr>magnitude = v, units = ''m/s''\<rparr>\<rparr>)"
  unfolding va_acquire_flat
  by (cases "positions (ds_isobaric ds) 500") (auto simp: and_then_Inr_iff)

lemma xr_select_iff:
  "xr_select L data x = Inr x' \<longleftrightarrow>
     (\<exists>t0 rest h u v.
        xr_vtimes x = t0 # rest \<and>
        sel (data_time1 data) (data_isobaric data) (data_hght data) (datetime64 L t0) 500 = Inr h \<and>
        sel (data_time1 data) (data_isobaric data) (data_uwnd data) (datetime64 L t0) 500 = Inr u \<and>
        sel (data_time1 data) (data_isobaric data) (data_vwnd data) (datetime64 L t0) 500 = Inr v \<and>
        x' = x\<lparr>xr_hght_500 := h, xr_uwnd_500 := u, xr_vwnd_500 := v\<rparr>)"
  by (cases "xr_vtimes x") (auto simp: xr_select_def and_then_Inr_iff)

lemma xr_read_vtimes_iff:
  "xr_read_vtimes L data x = Inr x' \<longleftrightarrow>
     (\<exists>vtimes. xr_vtimes_loop L (data_time data) [] = Inr vtimes \<and> x' = x\<lparr>xr_vtimes := vtimes\<rparr>)"
  by (auto simp: xr_read_vtimes_def and_then_Inr_iff)

text \<open>
  C4 as amended. In every completed run of the vorticity-advection notebook the filter is
  called twice, and what it returns goes here: the smoothed height is bound to
  \<^verbatim>\<open>hght_500\<close> and drawn as the first contour layer, and no other call receives it; the
  smoothed absolute vorticity is bound to \<^verbatim>\<open>avor\<close>, drawn (times \<open>10^5\<close>) as the second
  contour layer, and is the scalar argument of the advection. The relative vorticity is
  computed from the wind slices as read from the dataset and the grid spacings of the
  dataset's longitude and latitude, the Coriolis term from the dataset's latitude: no
  smoothed field reaches them. In every completed run of the xarray notebook the filter's
  output is the contour layer and nothing else; the namespace keeps the unsmoothed
  selections. The run completes exactly when these calls succeed. Two consequences are
  stated on their own: the calculation cell gives the same result whatever \<^verbatim>\<open>hght_500\<close>
  holds, and the absolute vorticity before smoothing is the same for every filter.
\<close>

theorem smoothing_downstream_use:
  "(va_notebook L ds s = Inr s' \<longleftrightarrow>
      (\<exists>t k rest raw smooth_hght u v gx gy f0 cor rel a smooth_avor adv.
         num2date L (ds_times ds) (ds_times_units ds) = Inr t \<and>
         positions (ds_isobaric ds) 500 = k # rest \<and>
         index2 (ds_hght ds) 0 k = Inr raw \<and>
         gaussian_filter L raw 3 0 = Inr smooth_hght \<and>
         index2 (ds_uwnd ds) 0 k = Inr u \<and>
         index2 (ds_vwnd ds) 0 k = Inr v \<and>
         lat_lon_grid_deltas L (ds_lon ds) (ds_lat ds) = Inr (gx, gy) \<and>
         coriolis_parameter L (deg2rad L (ds_lat ds)) = Inr f0 \<and>
         to_units L f0 ''1/sec'' = Inr cor \<and>
         vorticity L \<lparr>magnitude = u, units = ''m/s''\<rparr> \<lparr>magnitude = v, units = ''m/s''\<rparr>
           gx gy ''yx'' = Inr rel \<and>
         quantity_add L rel cor = Inr a \<and>
         gaussian_filter L (magnitude a) 3 0 = Inr smooth_avor \<and>
         advection L \<lparr>magnitude = smooth_avor, units = ''1/s''\<rparr>
           [\<lparr>magnitude = u, units = ''m/s''\<rparr>, \<lparr>magnitude = v, units = ''m/s''\<rparr>]
           (gx, gy) ''yx'' = Inr adv \<and>
         s' = s\<lparr>va_lon := ds_lon ds, va_lat := ds_lat ds, va_vtime := t, va_lev_500 := k,
                va_hght_500 := \<lparr>magnitude = smooth_hght, units = ''meter''\<rparr>,
                va_uwnd_500 := \<lparr>magnitude = u, units = ''m/s''\<rparr>,
                va_vwnd_500 := \<lparr>magnitude = v, units = ''m/s''\<rparr>,
                va_dx := gx, va_dy := gy, va_f := cor,
                va_avor := \<lparr>magnitude = smooth_avor, units = ''1/s''\<rparr>,
                va_vort_adv := \<lparr>magnitude = times_scalar L (magnitude adv) (10 ^ 9),
                                 units = units adv\<rparr>,
                va_title_left :=
                  ''500-hPa Heights (m), AVOR$*10^5$ ($s^{-1}$), AVOR Adv$*10^8$ ($s^{-2}$)'',
                va_title_right := ''VALID: '' @ format_time L t,
                va_layers :=
                  [Contour smooth_hght,
                   Contour (times_scalar L smooth_avor (10 ^ 5)),
                   Contourf (times_scalar L (magnitude adv) (10 ^ 9)),
                   Barbs u v]\<rparr>)) \<and>
   (xr_notebook L data x = Inr x' \<longleftrightarrow>
      (\<exists>t0 rest h u v smooth.
         xr_vtimes_loop L (data_time data) [] = Inr (t0 # rest) \<and>
         sel (data_time1 data) (data_isobaric data) (data_hght data) (datetime64 L t0) 500
           = Inr (Slice h) \<and>
         sel (data_time1 data) (data_isobaric data) (data_uwnd data) (datetime64 L t0) 500
           = Inr (Slice u) \<and>
         sel (data_time1 data) (data_isobaric data) (data_vwnd data) (datetime64 L t0) 500
           = Inr (Slice v) \<and>
         gaussian_filter L h 5 0 = Inr smooth \<and>
         x' = x\<lparr>xr_vtimes := t0 # rest,
                xr_hght_500 := Slice h, xr_uwnd_500 := Slice u, xr_vwnd_500 := Slice v,
                xr_layers := [Contour smooth, Barbs u v],
                xr_title_left := ''500-hPa Geopotential Heights (m)'',
                xr_title_right := ''VALID: '' @ format_time L t0\<rparr>)) \<and>
   va_calc L (s\<lparr>va_hght_500 := h0\<rparr>) = map_sum id (\<lambda>s'. s'\<lparr>va_hght_500 := h0\<rparr>) (va_calc L s) \<and>
   va_calc_avor (L\<lparr>gaussian_filter := gf\<rparr>) s = va_calc_avor L s"
proof (intro conjI)
  show "va_calc L (s\<lparr>va_hght_500 := h0\<rparr>) = map_sum id (\<lambda>s'. s'\<lparr>va_hght_500 := h0\<rparr>) (va_calc L s)"
    by (rule va_calc_ignores_hght)
  show "va_calc_avor (L\<lparr>gaussian_filter := gf\<rparr>) s = va_calc_avor L s"
    by (rule va_calc_avor_ignores_filter)
next
  show "xr_notebook L data x = Inr x' \<longleftrightarrow>
      (\<exists>t0 rest h u v smooth.
         xr_vtimes_loop L (data_time data) [] = Inr (t0 # rest) \<and>
         sel (data_time1 data) (data_isobaric data) (data_hght data) (datetime64 L t0) 500
           = Inr (Slice h) \<and>
         sel (data_time1 data) (data_isobaric data) (data_uwnd data) (datetime64 L t0) 500
           = Inr (Slice u) \<and>
         sel (data_time1 data) (data_isobaric data) (data_vwnd data) (datetime64 L t0) 500
           = Inr (Slice v) \<and>
         gaussian_filter L h 5 0 = Inr smooth \<and>
         x' = x\<lparr>xr_vtimes := t0 # rest,
                xr_hght_500 := Slice h, xr_uwnd_500 := Slice u, xr_vwnd_500 := Slice v,
                xr_layers := [Contour smooth, Barbs u v],
                xr_title_left := ''500-hPa Geopotential Heights (m)'',
                xr_title_right := ''VALID: '' @ format_time L t0\<rparr>)"
    unfolding xr_notebook_def
    by (rule iffI; clarsimp simp: and_then_Inr_iff xr_read_vtimes_iff xr_select_iff xr_plot_iff)
next
  show "va_notebook L ds s = Inr s' \<longleftrightarrow>
      (\<exists>t k rest raw smooth_hght u v gx gy f0 cor rel a smooth_avor adv.
         num2date L (ds_times ds) (ds_times_units ds) = Inr t \<and>
         positions (ds_isobaric ds) 500 = k # rest \<and>
         index2 (ds_hght ds) 0 k = Inr raw \<and>
         gaussian_filter L raw 3 0 = Inr smooth_hght \<and>
         index2 (ds_uwnd ds) 0 k = Inr u \<and>
         index2 (ds_vwnd ds) 0 k = Inr v \<and>
         lat_lon_grid_deltas L (ds_lon ds) (ds_lat ds) = Inr (gx, gy) \<and>
         coriolis_parameter L (deg2rad L (ds_lat ds)) = Inr f0 \<and>
         to_units L f0 ''1/sec'' = Inr cor \<and>
         vorticity L \<lparr>magnitude = u, units = ''m/s''\<rparr> \<lparr>magnitude = v, units = ''m/s''\<rparr>
           gx gy ''yx'' = Inr rel \<and>
         quantity_add L rel cor = Inr a \<and>
         gaussian_filter L (magnitude a) 3 0 = Inr smooth_avor \<and>
         advection L \<lparr>magnitude = smooth_avor, units = ''1/s''\<rparr>
           [\<lparr>magnitude = u, units = ''m/s''\<rparr>, \<lparr>magnitude = v, units = ''m/s''\<rparr>]
           (gx, gy) ''yx'' = Inr adv \<and>
         s' = s\<lparr>va_lon := ds_lon ds, va_lat := ds_lat ds, va_vtime := t, va_lev_500 := k,
                va_hght_500 := \<lparr>magnitude = smooth_hght, units = ''meter''\<rparr>,
                va_uwnd_500 := \<lparr>magnitude = u, units = ''m/s''\<rparr>,
                va_vwnd_500 := \<lparr>magnitude = v, units = ''m/s''\<rparr>,
                va_dx := gx, va_dy := gy, va_f := cor,
                va_avor := \<lparr>magnitude = smooth_avor, units = ''1/s''\<rparr>,
                va_vort_adv := \<lparr>magnitude = times_scalar L (magnitude adv) (10 ^ 9),
                                 units = units adv\<rparr>,
                va_title_left :=
                  ''500-hPa Heights (m), AVOR$*10^5$ ($s^{-1}$), AVOR Adv$*10^8$ ($s^{-2}$)'',
                va_title_right := ''VALID: '' @ format_time L t,
                va_layers :=
                  [Contour smooth_hght,
                   Contour (times_scalar L smooth_avor (10 ^ 5)),
                   Contourf (times_scalar L (magnitude adv) (10 ^ 9)),
                   Barbs u v]\<rparr>)"
    (is "?run \<longleftrightarrow> ?calls")
  proof
    assume ?run
    then obtain s1 s4 where cells: "va_acquire L ds s = Inr s1" "va_calc L s1 = Inr s4"
      "s' = va_plot L s4"
      unfolding va_notebook_def and_then_Inr_iff by auto
    obtain s2 s3 where steps: "va_calc_avor L s1 = Inr s2" "va_smooth_avor L s2 = Inr s3"
      "va_advect L s3 = Inr s4"
      using cells(2) unfolding va_calc_def and_then_Inr_iff by blast
    obtain t k rest raw smooth_hght u v where acquired:
      "num2date L (ds_times ds) (ds_times_units ds) = Inr t"
      "positions (ds_isobaric ds) 500 = k # rest"
      "index2 (ds_hght ds) 0 k = Inr raw"
      "gaussian_filter L raw 3 0 = Inr smooth_hght"
      "index2 (ds_uwnd ds) 0 k = Inr u"
      "index2 (ds_vwnd ds) 0 k = Inr v"
      and s1: "s1 = s\<lparr>va_lon := ds_lon ds, va_lat := ds_lat ds, va_vtime := t, va_lev_500 := k,
               va_hght_500 := \<lparr>magnitude = smooth_hght, units = ''meter''\<rparr>,
               va_uwnd_500 := \<lparr>magnitude = u, units = ''m/s''\<rparr>,
               va_vwnd_500 := \<lparr>magnitude = v, units = ''m/s''\<rparr>\<rparr>"
      using cells(1) unfolding va_acquire_iff by blast
    obtain gx gy f0 cor rel a where computed:
      "lat_lon_grid_deltas L (va_lon s1) (va_lat s1) = Inr (gx, gy)"
      "coriolis_parameter L (deg2rad L (va_lat s1)) = Inr f0"
      "to_units L f0 ''1/sec'' = Inr cor"
      "vorticity L (va_uwnd_500 s1) (va_vwnd_500 s1) gx gy ''yx'' = Inr rel"
      "quantity_add L rel cor = Inr a"
      and s2: "s2 = s1\<lparr>va_dx := gx, va_dy := gy, va_f := cor, va_avor := a\<rparr>"
      using steps(1) unfolding va_calc_avor_iff by blast
    obtain smooth_avor where smoothed:
      "gaussian_filter L (magnitude (va_avor s2)) 3 0 = Inr smooth_avor"
      and s3: "s3 = s2\<lparr>va_avor := \<lparr>magnitude = smooth_avor, units = ''1/s''\<rparr>\<rparr>"
      using steps(2) unfolding va_smooth_avor_iff by blast
    obtain adv where advected:
      "advection L (va_avor s3) [va_uwnd_500 s3, va_vwnd_500 s3] (va_dx s3, va_dy s3) ''yx''
         = Inr adv"
      and s4: "s4 = s3\<lparr>va_vort_adv := \<lparr>magnitude = times_scalar L (magnitude adv) (10 ^ 9),
                                      units = units adv\<rparr>\<rparr>"
      using steps(3) unfolding va_advect_iff by blast
    have "lat_lon_grid_deltas L (ds_lon ds) (ds_lat ds) = Inr (gx, gy)"
      and "coriolis_parameter L (deg2rad L (ds_lat ds)) = Inr f0"
      and "vorticity L \<lparr>magnitude = u, units = ''m/s''\<rparr> \<lparr>magnitude = v, units = ''m/s''\<rparr>
           gx gy ''yx'' = Inr rel"
      using computed(1,2,4) by (simp_all add: s1)
    moreover have "gaussian_filter L (magnitude a) 3 0 = Inr smooth_avor"
      using smoothed by (simp add: s2)
    moreover have "advection L \<lparr>magnitude = smooth_avor, units = ''1/s''\<rparr>
           [\<lparr>magnitude = u, units = ''m/s''\<rparr>, \<lparr>magnitude = v, units = ''m/s''\<rparr>]
           (gx, gy) ''yx'' = Inr adv"
      using advected by (simp add: s3 s2 s1)
    moreover have "s' = s\<lparr>va_lon := ds_lon ds, va_lat := ds_lat ds, va_vtime := t, va_lev_500 := k,
                va_hght_500 := \<lparr>magnitude = smooth_hght, units = ''meter''\<rparr>,
                va_uwnd_500 := \<lparr>magnitude = u, units = ''m/s''\<rparr>,
                va_vwnd_500 := \<lparr>magnitude = v, units = ''m/s''\<rparr>,
                va_dx := gx, va_dy := gy, va_f := cor,
                va_avor := \<lparr>magnitude = smooth_avor, units = ''1/s''\<rparr>,
                va_vort_adv := \<lparr>magnitude = times_scalar L (magnitude adv) (10 ^ 9),
                                 units = units adv\<rparr>,
                va_title_left :=
                  ''500-hPa Heights (m), AVOR$*10^5$ ($s^{-1}$), AVOR Adv$*10^8$ ($s^{-2}$)'',
                va_title_right := ''VALID: '' @ format_time L t,
                va_layers :=
                  [Contour smooth_hght,
                   Contour (times_scalar L smooth_avor (10 ^ 5)),
                   Contourf (times_scalar L (magnitude adv) (10 ^ 9)),
                   Barbs u v]\<rparr>"
      by (simp add: cells(3) va_plot_def s4 s3 s2 s1)
    ultimately show ?calls
      using acquired computed(3,5) by blast
  next
    assume ?calls
    then obtain t k rest raw smooth_hght u v gx gy f0 cor rel a smooth_avor adv where
      acquired: "num2date L (ds_times ds) (ds_times_units ds) = Inr t"
        "positions (ds_isobaric ds) 500 = k # rest"
        "index2 (ds_hght ds) 0 k = Inr raw"
        "gaussian_filter L raw 3 0 = Inr smooth_hght"
        "index2 (ds_uwnd ds) 0 k = Inr u"
        "index2 (ds_vwnd ds) 0 k = Inr v"
      and computed: "lat_lon_grid_deltas L (ds_lon ds) (ds_lat ds) = Inr (gx, gy)"
        "coriolis_parameter L (deg2rad L (ds_lat ds)) = Inr f0"
        "to_units L f0 ''1/sec'' = Inr cor"
        "vorticity L \<lparr>magnitude = u, units = ''m/s''\<rparr> \<lparr>magnitude = v, units = ''m/s''\<rparr>
           gx gy ''yx'' = Inr rel"
        "quantity_add L rel cor = Inr a"
      and smoothed: "gaussian_filter L (magnitude a) 3 0 = Inr smooth_avor"
      and advected: "advection L \<lparr>magnitude = smooth_avor, units = ''1/s''\<rparr>
           [\<lparr>magnitude = u, units = ''m/s''\<rparr>, \<lparr>magnitude = v, units = ''m/s''\<rparr>]
           (gx, gy) ''yx'' = Inr adv"
      and s': "s' = s\<lparr>va_lon := ds_lon ds, va_lat := ds_lat ds, va_vtime := t, va_lev_500 := k,
                va_hght_500 := \<lparr>magnitude = smooth_hght, units = ''meter''\<rparr>,
                va_uwnd_500 := \<lparr>magnitude = u, units = ''m/s''\<rparr>,
                va_vwnd_500 := \<lparr>magnitude = v, units = ''m/s''\<rparr>,
                va_dx := gx, va_dy := gy, va_f := cor,
                va_avor := \<lparr>magnitude = smooth_avor, units = ''1/s''\<rparr>,
                va_vort_adv := \<lparr>magnitude = times_scalar L (magnitude adv) (10 ^ 9),
                                 units = units adv\<rparr>,
                va_title_left :=
                  ''500-hPa Heights (m), AVOR$*10^5$ ($s^{-1}$), AVOR Adv$*10^8$ ($s^{-2}$)'',
                va_title_right := ''VALID: '' @ format_time L t,
                va_layers :=
                  [Contour smooth_hght,
                   Contour (times_scalar L smooth_avor (10 ^ 5)),
                   Contourf (times_scalar L (magnitude adv) (10 ^ 9)),
                   Barbs u v]\<rparr>"
      by blast
    define s1 where "s1 = s\<lparr>va_lon := ds_lon ds, va_lat := ds_lat ds, va_vtime := t,
               va_lev_500 := k,
               va_hght_500 := \<lparr>magnitude = smooth_hght, units = ''meter''\<rparr>,
               va_uwnd_500 := \<lparr>magnitude = u, units = ''m/s''\<rparr>,
               va_vwnd_500 := \<lparr>magnitude = v, units = ''m/s''\<rparr>\<rparr>"
    define s2 where "s2 = s1\<lparr>va_dx := gx, va_dy := gy, va_f := cor, va_avor := a\<rparr>"
    define s3 where "s3 = s2\<lparr>va_avor := \<lparr>magnitude = smooth_avor, units = ''1/s''\<rparr>\<rparr>"
    define s4 where "s4 = s3\<lparr>va_vort_adv :=
      \<lparr>magnitude = times_scalar L (magnitude adv) (10 ^ 9), units = units adv\<rparr>\<rparr>"
    have "va_acquire L ds s = Inr s1"
      unfolding va_acquire_iff s1_def using acquired by blast
    moreover have "va_calc_avor L s1 = Inr s2"
      unfolding va_calc_avor_iff s2_def using computed by (simp add: s1_def)
    moreover have "va_smooth_avor L s2 = Inr s3"
      unfolding va_smooth_avor_iff s3_def using smoothed by (simp add: s2_def)
    moreover have "va_advect L s3 = Inr s4"
      unfolding va_advect_iff s4_def using advected by (simp add: s3_def s2_def s1_def)
    moreover have "va_plot L s4 = s'"
      by (simp add: va_plot_def s' s4_def s3_def s2_def s1_def)
    ultimately show ?run
      by (simp add: va_notebook_def va_calc_def)
  qed
qed

theorem smoothing_downstream_use_witness:
  "va_notebook recording_lib sample_ds va_blank = Inr va_sample_drawn \<and>
   xr_notebook recording_lib sample_data xr_blank = Inr xr_sample_drawn \<and>
   (\<exists>k raw smooth_hght u v gx gy rel cor a smooth_avor adv.
      index2 (ds_hght sample_ds) 0 k = Inr raw \<and>
      gaussian_filter recording_lib raw 3 0 = Inr smooth_hght \<and>
      index2 (ds_uwnd sample_ds) 0 k = Inr u \<and>
      index2 (ds_vwnd sample_ds) 0 k = Inr v \<and>
      vorticity recording_lib \<lparr>magnitude = u, units = ''m/s''\<rparr> \<lparr>magnitude = v, units = ''m/s''\<rparr>
        gx gy ''yx'' = Inr rel \<and>
      quantity_add recording_lib rel cor = Inr a \<and>
      gaussian_filter recording_lib (magnitude a) 3 0 = Inr smooth_avor \<and>
      advection recording_lib \<lparr>magnitude = smooth_avor, units = ''1/s''\<rparr>
        [\<lparr>magnitude = u, units = ''m/s''\<rparr>, \<lparr>magnitude = v, units = ''m/s''\<rparr>]
        (gx, gy) ''yx'' = Inr adv \<and>
      va_layers va_sample_drawn =
        [Contour smooth_hght,
         Contour (times_scalar recording_lib smooth_avor (10 ^ 5)),
         Contourf (times_scalar recording_lib (magnitude adv) (10 ^ 9)),
         Barbs u v]) \<and>
   (\<exists>h u v smooth.
      gaussian_filter recording_lib h 5 0 = Inr smooth \<and>
      xr_hght_500 xr_sample_drawn = Slice h \<and>
      xr_layers xr_sample_drawn = [Contour smooth, Barbs u v])"
proof -
  note use = smoothing_downstream_use [where L = recording_lib and ds = sample_ds
      and s = va_blank and s' = va_sample_drawn and data = sample_data and x = xr_blank
      and x' = xr_sample_drawn]
  have "\<exists>k raw smooth_hght u v gx gy rel cor a smooth_avor adv.
      index2 (ds_hght sample_ds) 0 k = Inr raw \<and>
      gaussian_filter recording_lib raw 3 0 = Inr smooth_hght \<and>
      index2 (ds_uwnd sample_ds) 0 k = Inr u \<and>
      index2 (ds_vwnd sample_ds) 0 k = Inr v \<and>
      vorticity recording_lib \<lparr>magnitude = u, units = ''m/s''\<rparr> \<lparr>magnitude = v, units = ''m/s''\<rparr>
        gx gy ''yx'' = Inr rel \<and>
      quantity_add recording_lib rel cor = Inr a \<and>
      gaussian_filter recording_lib (magnitude a) 3 0 = Inr smooth_avor \<and>
      advection recording_lib \<lparr>magnitude = smooth_avor, units = ''1/s''\<rparr>
        [\<lparr>magnitude = u, units = ''m/s''\<rparr>, \<lparr>magnitude = v, units = ''m/s''\<rparr>]
        (gx, gy) ''yx'' = Inr adv \<and>
      va_layers va_sample_drawn =
        [Contour smooth_hght,
         Contour (times_scalar recording_lib smooth_avor (10 ^ 5)),
         Contourf (times_scalar recording_lib (magnitude adv) (10 ^ 9)),
         Barbs u v]"
    using iffD1 [OF use [THEN conjunct1] sample_va_notebook]
    by (elim exE conjE, intro exI conjI)
      (assumption | simp add: va_sample_drawn_def va_sample_done_def va_sample_def va_blank_def)+
  moreover have "\<exists>h u v smooth.
      gaussian_filter recording_lib h 5 0 = Inr smooth \<and>
      xr_hght_500 xr_sample_drawn = Slice h \<and>
      xr_layers xr_sample_drawn = [Contour smooth, Barbs u v]"
    using iffD1 [OF use [THEN conjunct2, THEN conjunct1] sample_xr_notebook]
    by (elim exE conjE, intro exI conjI)
      (assumption | simp add: xr_sample_drawn_def xr_sample_selected_def xr_sample_def xr_blank_def)+
  ultimately show ?thesis
    using sample_va_notebook sample_xr_notebook by blast
qed

section \<open>Units after smoothing\<close>

text \<open>
  C10. The output of each smoothing statement carries the hardcoded unit, whatever unit
  the input was in. Height: when the statement completes, \<^verbatim>\<open>hght_500\<close> is tagged
  \<^verbatim>\<open>meter\<close> and its magnitudes are the filter's output on the raw slice; the statement
  does the same whatever the \<^verbatim>\<open>units\<close> attribute of the height variable says. Absolute
  vorticity: when the statement completes, \<^verbatim>\<open>avor\<close> is tagged \<^verbatim>\<open>1/s\<close> and its
  magnitudes are the filter's output on the magnitudes of the old \<^verbatim>\<open>avor\<close>; retagging
  the input with any other unit \<open>u\<close>, magnitudes unchanged, changes neither the outcome
  nor the result: nothing is converted and nothing is raised.
\<close>

theorem smoothing_retags_unit:
  "(va_select_hght L ds s = Inr s' \<longrightarrow>
      units (va_hght_500 s') = ''meter'' \<and>
      (\<exists>raw. index2 (ds_hght ds) 0 (va_lev_500 s) = Inr raw \<and>
             gaussian_filter L raw 3 0 = Inr (magnitude (va_hght_500 s')))) \<and>
   va_select_hght L (ds\<lparr>ds_hght_units := u\<rparr>) s = va_select_hght L ds s \<and>
   (va_smooth_avor L r = Inr r' \<longrightarrow>
      units (va_avor r') = ''1/s'' \<and>
      gaussian_filter L (magnitude (va_avor r)) 3 0 = Inr (magnitude (va_avor r'))) \<and>
   va_smooth_avor L (r\<lparr>va_avor := \<lparr>magnitude = magnitude (va_avor r), units = u\<rparr>\<rparr>)
     = va_smooth_avor L r"
proof (intro conjI impI)
  assume "va_select_hght L ds s = Inr s'"
  then obtain raw smooth where got: "index2 (ds_hght ds) 0 (va_lev_500 s) = Inr raw"
    "gaussian_filter L raw 3 0 = Inr smooth"
    "s' = s\<lparr>va_hght_500 := \<lparr>magnitude = smooth, units = ''meter''\<rparr>\<rparr>"
    unfolding va_select_hght_def and_then_Inr_iff by auto
  show "units (va_hght_500 s') = ''meter''"
    by (simp add: got(3))
  show "\<exists>raw. index2 (ds_hght ds) 0 (va_lev_500 s) = Inr raw \<and>
             gaussian_filter L raw 3 0 = Inr (magnitude (va_hght_500 s'))"
    using got by simp
next
  show "va_select_hght L (ds\<lparr>ds_hght_units := u\<rparr>) s = va_select_hght L ds s"
    by (simp add: va_select_hght_def)
next
  assume "va_smooth_avor L r = Inr r'"
  then obtain smooth where got: "gaussian_filter L (magnitude (va_avor r)) 3 0 = Inr smooth"
    "r' = r\<lparr>va_avor := \<lparr>magnitude = smooth, units = ''1/s''\<rparr>\<rparr>"
    unfolding va_smooth_avor_iff by blast
  show "units (va_avor r') = ''1/s''"
    by (simp add: got(2))
  show "gaussian_filter L (magnitude (va_avor r)) 3 0 = Inr (magnitude (va_avor r'))"
    using got by simp
next
  show "va_smooth_avor L (r\<lparr>va_avor := \<lparr>magnitude = magnitude (va_avor r), units = u\<rparr>\<rparr>)
     = va_smooth_avor L r"
    by (simp add: va_smooth_avor_def)
qed

theorem smoothing_retags_unit_witness:
  "va_select_hght recording_lib sample_ds (va_blank\<lparr>va_lev_500 := 2\<rparr>) =
     Inr (va_blank\<lparr>va_lev_500 := 2,
            va_hght_500 := \<lparr>magnitude = Smoothed (Given ''hght 500'') 3 0, units = ''meter''\<rparr>\<rparr>) \<and>
   ds_hght_units sample_ds = ''gpm'' \<and>
   va_select_hght recording_lib (sample_ds\<lparr>ds_hght_units := ''km''\<rparr>) (va_blank\<lparr>va_lev_500 := 2\<rparr>)
     = va_select_hght recording_lib sample_ds (va_blank\<lparr>va_lev_500 := 2\<rparr>) \<and>
   va_smooth_avor recording_lib (va_sample\<lparr>va_avor := \<lparr>magnitude = sample_avor, units = ''1/second''\<rparr>\<rparr>) =
     Inr (va_sample\<lparr>va_avor := \<lparr>magnitude = Smoothed sample_avor 3 0, units = ''1/s''\<rparr>\<rparr>) \<and>
   va_smooth_avor recording_lib (va_sample\<lparr>va_avor := \<lparr>magnitude = sample_avor, units = ''1/hour''\<rparr>\<rparr>) =
     Inr (va_sample\<lparr>va_avor := \<lparr>magnitude = Smoothed sample_avor 3 0, units = ''1/s''\<rparr>\<rparr>)"
proof -
  have hght: "va_select_hght recording_lib sample_ds (va_blank\<lparr>va_lev_500 := 2\<rparr>) =
     Inr (va_blank\<lparr>va_lev_500 := 2,
            va_hght_500 := \<lparr>magnitude = Smoothed (Given ''hght 500'') 3 0, units = ''meter''\<rparr>\<rparr>)"
    by (simp add: va_select_hght_def index2_def sample_ds_def recording_lib_def)
  have avor: "va_smooth_avor recording_lib
      (va_sample\<lparr>va_avor := \<lparr>magnitude = sample_avor, units = ''1/second''\<rparr>\<rparr>) =
     Inr (va_sample\<lparr>va_avor := \<lparr>magnitude = Smoothed sample_avor 3 0, units = ''1/s''\<rparr>\<rparr>)"
    by (simp add: va_smooth_avor_def recording_lib_def)
  have "va_smooth_avor recording_lib
      (va_sample\<lparr>va_avor := \<lparr>magnitude = sample_avor, units = ''1/hour''\<rparr>\<rparr>) =
     Inr (va_sample\<lparr>va_avor := \<lparr>magnitude = Smoothed sample_avor 3 0, units = ''1/s''\<rparr>\<rparr>)"
    using smoothing_retags_unit [where L = recording_lib and u = "''1/hour''"
        and r = "va_sample\<lparr>va_avor := \<lparr>magnitude = sample_avor, units = ''1/second''\<rparr>\<rparr>"]
      avor
    by simp
  moreover have "va_select_hght recording_lib (sample_ds\<lparr>ds_hght_units := ''km''\<rparr>)
      (va_blank\<lparr>va_lev_500 := 2\<rparr>)
     = va_select_hght recording_lib sample_ds (va_blank\<lparr>va_lev_500 := 2\<rparr>)"
    using smoothing_retags_unit [where L = recording_lib and ds = sample_ds and u = "''km''"
        and s = "va_blank\<lparr>va_lev_500 := 2\<rparr>"]
    by blast
  moreover have "ds_hght_units sample_ds = ''gpm''"
    by (simp add: sample_ds_def)
  ultimately show ?thesis
    using hght avor by blast
qed

end
